theory Spec2Isabelle
  imports Complex_Main
begin

section \<open>Conventions of the embedding\<close>

text \<open>
  The Python sources under \<^verbatim>\<open>src/autobot\<close> are embedded function by function.
  \<^item> A Python \<^verbatim>\<open>float\<close> is a \<^typ>\<open>real\<close>: the arithmetic is the exact one, rounding of
    IEEE doubles is not modelled.
  \<^item> A \<^verbatim>\<open>datetime\<close> is an \<^typ>\<open>int\<close>, the number of microseconds since the epoch
    (the resolution of \<^verbatim>\<open>datetime\<close>); \<^verbatim>\<open>datetime.now(timezone.utc)\<close> is an argument
    \<open>now\<close> of the function that reads the clock, one reading for each call.
  \<^item> A text built by an f-string is a constructor that holds the interpolated values;
    how the numbers are printed is not modelled.
  \<^item> An exception is a value \<open>Inl e\<close> of a sum type.
  \<^item> The attributes of an object are the fields of a record, and a method takes the
    record and returns the updated one.
\<close>

datatype py_error = ZeroDivisionError

type_synonym datetime = int

definition timedelta_hours :: "int \<Rightarrow> int" where
  "timedelta_hours h = h * 3600 * 1000000"

definition total_seconds :: "int \<Rightarrow> real" where
  "total_seconds d = real_of_int d / 1000000"

section \<open>config.py\<close>

record TradingConfig =
  starting_capital :: real
  risk_per_trade_pct :: real
  max_position_pct :: real
  min_edge_to_trade :: real
  max_daily_loss_pct :: real
  max_concurrent_positions :: int
  stop_loss_pct :: real
  take_profit_pct :: real
  trailing_stop_pct :: real
  breakeven_trigger_pct :: real
  use_trailing_stop :: bool
  execution_delay_ms :: int
  auto_trade_enabled :: bool
  paper_trading :: bool

text \<open>The defaults of the dataclass \<^verbatim>\<open>TradingConfig\<close>.\<close>

definition default_config :: TradingConfig where
  "default_config =
     \<lparr> starting_capital = 10000, risk_per_trade_pct = 0.05, max_position_pct = 0.30,
       min_edge_to_trade = 0.30, max_daily_loss_pct = 0.10, max_concurrent_positions = 10,
       stop_loss_pct = 0.15, take_profit_pct = 0.30, trailing_stop_pct = 0.10,
       breakeven_trigger_pct = 0.10, use_trailing_stop = True, execution_delay_ms = 100,
       auto_trade_enabled = True, paper_trading = True \<rparr>"

section \<open>Messages\<close>

text \<open>
  The reason and warning texts of \<^verbatim>\<open>RiskManager.check_status\<close> and of the
  \<^verbatim>\<open>TradeExecutor\<close>, one constructor for each f-string, with the values it interpolates.
  \<open>NoReason\<close> is the empty string.
\<close>

datatype message =
    NoReason
  | RiskDailyLossLimitHit real real
  | RiskMaxPositionsReached int
  | ExposureTooHigh real
  | ApproachingDailyLossLimit real
  | HighExposure real
  | AlreadyHaveOpenPosition
  | MarketOnCooldown real
  | EdgeBelowMinimum real real
  | ConfidenceTooLow real
  | LiquidityTooLow real
  | DailyLossLimitHit real real
  | MaxConcurrentPositionsReached int
  | InvalidPrice
  | EdgeRiskSize real real real
  | AutoTradeDisabled
  | OrderPlacementFailed

section \<open>trading/polymarket\_client.py: positions and the trader's state\<close>

text \<open>
  A position is a Python dict used as a struct. Every key that \<^verbatim>\<open>_paper_order\<close> writes is
  a field; \<open>prediction\<close> is optional because a position read back from the database has
  no such key. The key \<^verbatim>\<open>id\<close> is the field \<open>ident\<close>, \<^verbatim>\<open>size\<close> is \<open>psize\<close> and \<^verbatim>\<open>value\<close> is
  \<open>pvalue\<close> (the plain names are taken in HOL).
\<close>

datatype order_id = PaperId datetime | OrderId string

record Position =
  ident :: order_id
  token_id :: string
  market :: string
  side :: string
  prediction :: "string option"
  psize :: real
  price :: real
  pvalue :: real
  risk_amount :: real
  status :: string
  timestamp :: datetime
  paper :: bool
  stop_loss_price :: real
  take_profit_price :: real
  breakeven_trigger_price :: real
  highest_price :: real
  breakeven_triggered :: bool
  trailing_stop_active :: bool


text \<open>
  The attributes of \<^verbatim>\<open>PolymarketTrader\<close> that the risk and trading code reads and writes.
  \<open>real_balance\<close> is \<open>None\<close> while the attribute \<^verbatim>\<open>_real_balance\<close> has not been set.
\<close>

record ClosedTrade =
  ct_id :: order_id
  ct_market :: string
  ct_token_id :: string
  ct_side :: string
  ct_prediction :: "string option"
  ct_size :: real
  ct_entry_price :: real
  ct_exit_price :: real
  ct_risk_amount :: real
  ct_pnl :: real
  ct_pnl_pct :: real
  ct_won :: bool
  ct_close_reason :: string
  ct_entry_time :: datetime
  ct_exit_time :: datetime
  ct_stop_loss_price :: real
  ct_take_profit_price :: real
  ct_breakeven_triggered :: bool
  ct_trailing_stop_active :: bool
  ct_highest_price :: real
  ct_paper :: bool

record PolymarketTrader =
  positions :: "Position list"
  paper_balance :: real
  trader_daily_pnl :: real
  trader_total_pnl :: real
  real_balance :: "real option"
  paper_positions :: "Position list"
  closed_trades :: "ClosedTrade list"

definition get_balance :: "TradingConfig \<Rightarrow> PolymarketTrader \<Rightarrow> real" where
  "get_balance cfg tr =
     (if paper_trading cfg then paper_balance tr
      else (case real_balance tr of Some b \<Rightarrow> b | None \<Rightarrow> starting_capital cfg))"

definition get_positions :: "TradingConfig \<Rightarrow> PolymarketTrader \<Rightarrow> Position list" where
  "get_positions cfg tr = (if paper_trading cfg then paper_positions tr else positions tr)"

definition get_daily_pnl :: "PolymarketTrader \<Rightarrow> real" where
  "get_daily_pnl tr = trader_daily_pnl tr"

section \<open>risk/manager.py\<close>

record RiskStatus =
  is_trading_allowed :: bool
  reason :: message
  daily_pnl :: real
  daily_pnl_pct :: real
  open_positions :: int
  total_exposure :: real
  exposure_pct :: real
  balance :: real
  warnings :: "message list"

record RiskManager =
  trading_paused :: bool
  pause_reason :: message
  pause_until :: "datetime option"

text \<open>\<^verbatim>\<open>RiskManager.__init__\<close>.\<close>

definition init_RiskManager :: RiskManager where
  "init_RiskManager = \<lparr> trading_paused = False, pause_reason = NoReason, pause_until = None \<rparr>"

text \<open>\<^verbatim>\<open>RiskManager._pause_trading(reason, hours)\<close>.\<close>

definition pause_trading :: "RiskManager \<Rightarrow> message \<Rightarrow> int \<Rightarrow> datetime \<Rightarrow> RiskManager" where
  "pause_trading rm r hours now =
     rm\<lparr> trading_paused := True, pause_reason := r,
         pause_until := Some (now + timedelta_hours hours) \<rparr>"

text \<open>
  The first lines of \<^verbatim>\<open>check_status\<close>: the status filled from the trader. The division by
  \<^verbatim>\<open>starting_capital\<close> raises when it is zero; the one by the balance is guarded.
\<close>

definition initial_status :: "TradingConfig \<Rightarrow> PolymarketTrader \<Rightarrow> RiskStatus" where
  "initial_status cfg tr =
     (let bal = get_balance cfg tr;
          dpnl = get_daily_pnl tr;
          ps = get_positions cfg tr;
          expo = sum_list (map pvalue ps)
      in \<lparr> is_trading_allowed = True, reason = NoReason, daily_pnl = dpnl,
           daily_pnl_pct = (dpnl / starting_capital cfg) * 100,
           open_positions = int (length ps), total_exposure = expo,
           exposure_pct = (if bal > 0 then expo / bal * 100 else 0),
           balance = bal, warnings = [] \<rparr>)"

text \<open>The checks of \<^verbatim>\<open>check_status\<close> that follow the pause check, in the order of the source.\<close>

definition limit_checks ::
  "TradingConfig \<Rightarrow> RiskStatus \<Rightarrow> RiskManager \<Rightarrow> datetime \<Rightarrow> RiskStatus \<times> RiskManager" where
  "limit_checks cfg st rm now =
     (let max_daily_loss = balance st * max_daily_loss_pct cfg in
      if daily_pnl st \<le> - max_daily_loss then
        (let r = RiskDailyLossLimitHit (daily_pnl st) max_daily_loss in
         (st\<lparr> is_trading_allowed := False, reason := r, warnings := warnings st @ [r] \<rparr>,
          pause_trading rm r 4 now))
      else if open_positions st \<ge> max_concurrent_positions cfg then
        (st\<lparr> is_trading_allowed := False,
              reason := RiskMaxPositionsReached (max_concurrent_positions cfg) \<rparr>, rm)
      else if exposure_pct st > 80 then
        (let r = ExposureTooHigh (exposure_pct st) in
         (st\<lparr> is_trading_allowed := False, reason := r, warnings := warnings st @ [r] \<rparr>, rm))
      else
        (let w1 = (if daily_pnl st \<le> - max_daily_loss * 0.5
                   then [ApproachingDailyLossLimit (daily_pnl st)] else []);
             w2 = (if exposure_pct st > 60 then [HighExposure (exposure_pct st)] else [])
         in (st\<lparr> is_trading_allowed := True, warnings := warnings st @ w1 @ w2 \<rparr>, rm)))"

definition check_status ::
  "TradingConfig \<Rightarrow> PolymarketTrader \<Rightarrow> RiskManager \<Rightarrow> datetime
     \<Rightarrow> py_error + (RiskStatus \<times> RiskManager)" where
  "check_status cfg tr rm now =
     (if starting_capital cfg = 0 then Inl ZeroDivisionError
      else
        (let st = initial_status cfg tr in
         if trading_paused rm then
           (if (case pause_until rm of None \<Rightarrow> False | Some u \<Rightarrow> now > u) then
              Inr (limit_checks cfg st
                     (rm\<lparr> trading_paused := False, pause_reason := NoReason \<rparr>) now)
            else
              Inr (st\<lparr> is_trading_allowed := False, reason := pause_reason rm \<rparr>, rm))
         else Inr (limit_checks cfg st rm now)))"

definition can_trade ::
  "TradingConfig \<Rightarrow> PolymarketTrader \<Rightarrow> RiskManager \<Rightarrow> datetime
     \<Rightarrow> py_error + (bool \<times> RiskManager)" where
  "can_trade cfg tr rm now =
     (case check_status cfg tr rm now of
        Inl e \<Rightarrow> Inl e
      | Inr (st, rm') \<Rightarrow> Inr (is_trading_allowed st, rm'))"

text \<open>
  The local variables of \<^verbatim>\<open>suggest_position_size\<close> (the same lines are in
  \<^verbatim>\<open>TradeExecutor.evaluate_opportunity\<close>), each under its name in the source.
\<close>

definition sizing_risk_amount :: "TradingConfig \<Rightarrow> real \<Rightarrow> real" where
  "sizing_risk_amount cfg equity = equity * risk_per_trade_pct cfg"

definition base_size :: "TradingConfig \<Rightarrow> real \<Rightarrow> real" where
  "base_size cfg equity = sizing_risk_amount cfg equity / stop_loss_pct cfg"

definition edge_multiplier :: "real \<Rightarrow> real" where
  "edge_multiplier edge = min 1.2 (0.8 + edge)"

definition suggested_raw :: "TradingConfig \<Rightarrow> real \<Rightarrow> real \<Rightarrow> real \<Rightarrow> real" where
  "suggested_raw cfg equity edge confidence =
     base_size cfg equity * edge_multiplier edge * confidence"

definition max_position :: "TradingConfig \<Rightarrow> real \<Rightarrow> real" where
  "max_position cfg equity = equity * max_position_pct cfg"

definition suggest_position_size ::
  "TradingConfig \<Rightarrow> PolymarketTrader \<Rightarrow> RiskManager \<Rightarrow> datetime \<Rightarrow> real \<Rightarrow> real
     \<Rightarrow> py_error + (real \<times> RiskManager)" where
  "suggest_position_size cfg tr rm now edge confidence =
     (case check_status cfg tr rm now of
        Inl e \<Rightarrow> Inl e
      | Inr (st, rm') \<Rightarrow>
          (let equity = balance st in
           if stop_loss_pct cfg = 0 then Inl ZeroDivisionError
           else
             (let suggested = suggested_raw cfg equity edge confidence;
                  suggested = min suggested (max_position cfg equity)
              in Inr (max 0 suggested, rm'))))"

text \<open>The formula of the specification, section 4.2: \<open>clamp(0.8 + edge, 0.8, 1.2)\<close>.\<close>

definition clamp :: "real \<Rightarrow> real \<Rightarrow> real \<Rightarrow> real" where
  "clamp x lo hi = max lo (min hi x)"

definition spec_edge_mult :: "real \<Rightarrow> real" where
  "spec_edge_mult edge = clamp (0.8 + edge) 0.8 1.2"


section \<open>data/database.py\<close>

text \<open>
  The SQLite file is a record of its three tables, and each function of the module takes
  the database and returns the updated one. A table is the list of its rows in insertion
  order. Every function of the module catches the exceptions of the driver and returns
  \<^verbatim>\<open>False\<close> or an empty result; a failing driver is not modelled, so the boolean result
  (always \<^verbatim>\<open>True\<close>) is left out. A row of \<^verbatim>\<open>open_positions\<close> has the sixteen columns of the
  \<^verbatim>\<open>CREATE TABLE\<close> statement; the three flags are integers. A row of \<^verbatim>\<open>closed_trades\<close> is
  kept as the closed trade without its \<open>prediction\<close>, for which the table has no column.
\<close>

record OpenPositionRow =
  r_id :: order_id
  r_token_id :: string
  r_market :: string
  r_side :: string
  r_size :: real
  r_price :: real
  r_value :: real
  r_risk_amount :: real
  r_stop_loss_price :: real
  r_take_profit_price :: real
  r_breakeven_trigger_price :: real
  r_highest_price :: real
  r_breakeven_triggered :: int
  r_trailing_stop_active :: int
  r_entry_time :: datetime
  r_paper :: int

record BotState =
  bs_paper_balance :: real
  bs_daily_pnl :: real
  bs_total_pnl :: real

record Database =
  open_positions_table :: "OpenPositionRow list"
  closed_trades_table :: "ClosedTrade list"
  bot_state :: BotState

text \<open>The tuple of parameters that \<^verbatim>\<open>save_open_position\<close> binds to the sixteen columns.\<close>

definition row_of_position :: "Position \<Rightarrow> OpenPositionRow" where
  "row_of_position p =
     \<lparr> r_id = ident p, r_token_id = token_id p, r_market = market p, r_side = side p,
       r_size = psize p, r_price = price p, r_value = pvalue p,
       r_risk_amount = risk_amount p, r_stop_loss_price = stop_loss_price p,
       r_take_profit_price = take_profit_price p,
       r_breakeven_trigger_price = breakeven_trigger_price p,
       r_highest_price = highest_price p,
       r_breakeven_triggered = (if breakeven_triggered p then 1 else 0),
       r_trailing_stop_active = (if trailing_stop_active p then 1 else 0),
       r_entry_time = timestamp p,
       r_paper = (if paper p then 1 else 0) \<rparr>"

text \<open>\<^verbatim>\<open>INSERT OR REPLACE\<close>: a row with the same primary key is deleted, the new row is added.\<close>

definition save_open_position :: "Database \<Rightarrow> Position \<Rightarrow> Database" where
  "save_open_position db p =
     db\<lparr> open_positions_table :=
           filter (\<lambda>r. r_id r \<noteq> ident p) (open_positions_table db) @ [row_of_position p] \<rparr>"

text \<open>The dict that \<^verbatim>\<open>get_open_positions\<close> builds from a row: seventeen keys, no \<^verbatim>\<open>prediction\<close>.\<close>

definition position_of_row :: "OpenPositionRow \<Rightarrow> Position" where
  "position_of_row r =
     \<lparr> ident = r_id r, token_id = r_token_id r, market = r_market r, side = r_side r,
       prediction = None, psize = r_size r, price = r_price r, pvalue = r_value r,
       risk_amount = r_risk_amount r, status = ''FILLED'', timestamp = r_entry_time r,
       paper = (r_paper r \<noteq> 0), stop_loss_price = r_stop_loss_price r,
       take_profit_price = r_take_profit_price r,
       breakeven_trigger_price = r_breakeven_trigger_price r,
       highest_price = r_highest_price r,
       breakeven_triggered = (r_breakeven_triggered r \<noteq> 0),
       trailing_stop_active = (r_trailing_stop_active r \<noteq> 0) \<rparr>"

definition get_open_positions :: "Database \<Rightarrow> Position list" where
  "get_open_positions db = map position_of_row (open_positions_table db)"

definition delete_open_position :: "Database \<Rightarrow> order_id \<Rightarrow> Database" where
  "delete_open_position db i =
     db\<lparr> open_positions_table := filter (\<lambda>r. r_id r \<noteq> i) (open_positions_table db) \<rparr>"

definition update_open_position :: "Database \<Rightarrow> Position \<Rightarrow> Database" where
  "update_open_position db p =
     db\<lparr> open_positions_table :=
           map (\<lambda>r. if r_id r = ident p
                     then r\<lparr> r_highest_price := highest_price p,
                            r_breakeven_triggered := (if breakeven_triggered p then 1 else 0),
                            r_trailing_stop_active := (if trailing_stop_active p then 1 else 0),
                            r_stop_loss_price := stop_loss_price p \<rparr>
                     else r)
               (open_positions_table db) \<rparr>"

definition save_closed_trade :: "Database \<Rightarrow> ClosedTrade \<Rightarrow> Database" where
  "save_closed_trade db t =
     db\<lparr> closed_trades_table :=
           filter (\<lambda>r. ct_id r \<noteq> ct_id t) (closed_trades_table db)
             @ [t\<lparr> ct_prediction := None \<rparr>] \<rparr>"

definition save_bot_state :: "Database \<Rightarrow> real \<Rightarrow> real \<Rightarrow> real \<Rightarrow> Database" where
  "save_bot_state db pb dp tp =
     db\<lparr> bot_state := \<lparr> bs_paper_balance = pb, bs_daily_pnl = dp, bs_total_pnl = tp \<rparr> \<rparr>"

text \<open>
  \<^verbatim>\<open>get_closed_trades(limit)\<close>: the rows by descending \<^verbatim>\<open>exit_time\<close>, at most \<open>limit\<close> of them.
  The sort is stable: rows with equal times stay in the order of their insertion.
\<close>

definition get_closed_trades :: "Database \<Rightarrow> nat \<Rightarrow> ClosedTrade list" where
  "get_closed_trades db limit =
     take limit (sort_key (\<lambda>r. - ct_exit_time r) (closed_trades_table db))"

section \<open>trading/polymarket\_client.py: orders, closing, the limit monitor\<close>

text \<open>\<^verbatim>\<open>str.upper\<close> on ASCII text.\<close>

definition upper_char :: "char \<Rightarrow> char" where
  "upper_char c =
     (let n = (of_char c :: nat) in if 97 \<le> n \<and> n \<le> 122 then char_of (n - 32) else c)"

definition upper :: "string \<Rightarrow> string" where
  "upper s = map upper_char s"

text \<open>
  \<^verbatim>\<open>_paper_order\<close>. It returns the order, the trader and the database. The check of the
  paper balance returns \<^verbatim>\<open>None\<close>.
\<close>

definition paper_order ::
  "TradingConfig \<Rightarrow> PolymarketTrader \<Rightarrow> Database \<Rightarrow> datetime
     \<Rightarrow> string \<Rightarrow> string \<Rightarrow> real \<Rightarrow> real \<Rightarrow> string \<Rightarrow> real \<Rightarrow> string
     \<Rightarrow> Position option \<times> PolymarketTrader \<times> Database" where
  "paper_order cfg tr db now tok sd sz pr market_question risk pred =
     (let position_value = sz * pr in
      if upper sd = ''BUY'' \<and> position_value > paper_balance tr then (None, tr, db)
      else
        (let sl = pr * (1 - stop_loss_pct cfg);
             tp = pr * (1 + take_profit_pct cfg);
             be = pr * (1 + breakeven_trigger_pct cfg);
             risk = (if risk \<le> 0 then position_value * stop_loss_pct cfg else risk);
             order = \<lparr> ident = PaperId now, token_id = tok, market = market_question,
                       side = sd, prediction = Some (if pred = [] then ''YES'' else pred),
                       psize = sz, price = pr, pvalue = position_value, risk_amount = risk,
                       status = ''FILLED'', timestamp = now, paper = True,
                       stop_loss_price = sl, take_profit_price = tp,
                       breakeven_trigger_price = be, highest_price = pr,
                       breakeven_triggered = False, trailing_stop_active = False \<rparr>
         in if upper sd = ''BUY'' then
              (Some order,
               tr\<lparr> paper_balance := paper_balance tr - position_value,
                   paper_positions := paper_positions tr @ [order] \<rparr>,
               save_open_position db order)
            else
              (Some order, tr\<lparr> paper_balance := paper_balance tr + position_value \<rparr>, db)))"

text \<open>
  \<^verbatim>\<open>place_order\<close>. The live branch talks to the exchange; what it returns (\<^verbatim>\<open>None\<close> when
  there is no client or the submission fails) is the argument \<open>live\<close>.
\<close>

definition place_order ::
  "TradingConfig \<Rightarrow> PolymarketTrader \<Rightarrow> Database \<Rightarrow> datetime \<Rightarrow> Position option
     \<Rightarrow> string \<Rightarrow> string \<Rightarrow> real \<Rightarrow> real \<Rightarrow> string \<Rightarrow> real \<Rightarrow> string
     \<Rightarrow> Position option \<times> PolymarketTrader \<times> Database" where
  "place_order cfg tr db now live tok sd sz pr market_question risk pred =
     (let position_value = sz * pr;
          max_pos = paper_balance tr * max_position_pct cfg;
          max_daily_loss = paper_balance tr * max_daily_loss_pct cfg
      in if position_value > max_pos then (None, tr, db)
         else if trader_daily_pnl tr \<le> - max_daily_loss then (None, tr, db)
         else if paper_trading cfg then
           paper_order cfg tr db now tok sd sz pr market_question risk pred
         else (live, tr, db))"

record CloseResult =
  cr_position :: Position
  cr_exit_price :: real
  cr_pnl :: real
  cr_pnl_pct :: real
  cr_daily_pnl :: real
  cr_total_pnl :: real
  cr_close_reason :: "string option"

text \<open>\<^verbatim>\<open>close_position\<close>. Every key it reads with \<^verbatim>\<open>get\<close> is a field of the position.\<close>

definition close_position ::
  "TradingConfig \<Rightarrow> PolymarketTrader \<Rightarrow> Database \<Rightarrow> datetime \<Rightarrow> Position \<Rightarrow> real \<Rightarrow> string
     \<Rightarrow> CloseResult \<times> PolymarketTrader \<times> Database" where
  "close_position cfg tr db now position exit_price close_reason =
     (let entry_price = price position;
          sz = psize position;
          sd = side position;
          position_value = pvalue position;
          risk = risk_amount position;
          pnl = (if upper sd = ''BUY'' then (exit_price - entry_price) * sz
                 else (entry_price - exit_price) * sz);
          tr1 = tr\<lparr> trader_daily_pnl := trader_daily_pnl tr + pnl,
                    trader_total_pnl := trader_total_pnl tr + pnl \<rparr>;
          tr2 = (if paper_trading cfg then
                   tr1\<lparr> paper_balance := paper_balance tr1 + sz * exit_price,
                        paper_positions :=
                          (if position \<in> set (paper_positions tr1)
                           then remove1 position (paper_positions tr1)
                           else paper_positions tr1) \<rparr>
                 else tr1);
          db1 = (if paper_trading cfg then delete_open_position db (ident position) else db);
          pnl_pct = (if position_value > 0 then (pnl / position_value) * 100 else 0);
          result = \<lparr> cr_position = position, cr_exit_price = exit_price, cr_pnl = pnl,
                     cr_pnl_pct = pnl_pct, cr_daily_pnl = trader_daily_pnl tr2,
                     cr_total_pnl = trader_total_pnl tr2, cr_close_reason = None \<rparr>;
          closed_trade =
            \<lparr> ct_id = ident position, ct_market = market position,
              ct_token_id = token_id position, ct_side = sd,
              ct_prediction = Some (case prediction position of None \<Rightarrow> ''YES'' | Some x \<Rightarrow> x),
              ct_size = sz, ct_entry_price = entry_price, ct_exit_price = exit_price,
              ct_risk_amount = risk, ct_pnl = pnl, ct_pnl_pct = pnl_pct, ct_won = (pnl \<ge> 0),
              ct_close_reason = close_reason, ct_entry_time = timestamp position,
              ct_exit_time = now, ct_stop_loss_price = stop_loss_price position,
              ct_take_profit_price = take_profit_price position,
              ct_breakeven_triggered = breakeven_triggered position,
              ct_trailing_stop_active = trailing_stop_active position,
              ct_highest_price = highest_price position, ct_paper = paper position \<rparr>;
          tr3 = tr2\<lparr> closed_trades := closed_trades tr2 @ [closed_trade] \<rparr>;
          db2 = save_closed_trade db1 closed_trade;
          db3 = save_bot_state db2 (paper_balance tr3) (trader_daily_pnl tr3)
                  (trader_total_pnl tr3)
      in (result, tr3, db3))"


record CloseItem =
  ci_position :: Position
  ci_current_price :: real
  ci_reason :: string
  ci_pnl_pct :: real

text \<open>
  The body of the loop of \<^verbatim>\<open>check_position_limits\<close> for one position, block by block
  as the comments of the source divide it. \<open>position_pnl_pct\<close> is the local \<^verbatim>\<open>pnl_pct\<close>; the
  caller has excluded a zero entry price, on which the division raises.
\<close>

definition position_pnl_pct :: "Position \<Rightarrow> real \<Rightarrow> real" where
  "position_pnl_pct pos current_price =
     (if upper (side pos) = ''BUY'' then (current_price - price pos) / price pos
      else (price pos - current_price) / price pos)"

text \<open>"Update highest price seen". Afterwards the local \<^verbatim>\<open>highest_price\<close> is the field.\<close>

definition update_highest :: "Position \<Rightarrow> real \<Rightarrow> Position" where
  "update_highest pos current_price =
     (if current_price > highest_price pos then pos\<lparr> highest_price := current_price \<rparr> else pos)"

text \<open>"Check breakeven trigger": the position and whether the block has written to it.\<close>

definition breakeven_check :: "TradingConfig \<Rightarrow> Position \<Rightarrow> real \<Rightarrow> Position \<times> bool" where
  "breakeven_check cfg pos pnl_pct =
     (if \<not> breakeven_triggered pos \<and> pnl_pct \<ge> breakeven_trigger_pct cfg
      then (pos\<lparr> breakeven_triggered := True, stop_loss_price := price pos,
                 trailing_stop_active := use_trailing_stop cfg \<rparr>, True)
      else (pos, False))"

text \<open>"Update trailing stop if active".\<close>

definition trailing_update :: "TradingConfig \<Rightarrow> Position \<Rightarrow> Position \<times> bool" where
  "trailing_update cfg pos =
     (if trailing_stop_active pos then
        (let trailing_stop_price = highest_price pos * (1 - trailing_stop_pct cfg) in
         if trailing_stop_price > stop_loss_price pos
         then (pos\<lparr> stop_loss_price := trailing_stop_price \<rparr>, True)
         else (pos, False))
      else (pos, False))"

text \<open>
  "Check stop loss" and then "Check take profit": the pair of \<^verbatim>\<open>close_reason\<close> and
  \<^verbatim>\<open>exit_price\<close> after both blocks.
\<close>

definition stop_loss_check :: "Position \<Rightarrow> real \<Rightarrow> string option \<times> real" where
  "stop_loss_check pos current_price =
     (let sl = stop_loss_price pos in
      if sl > 0 \<and> current_price \<le> sl then
        (Some (if trailing_stop_active pos then ''TRAILING_STOP''
               else if breakeven_triggered pos then ''BREAKEVEN_STOP''
               else ''STOP_LOSS''), sl)
      else (None, current_price))"

definition take_profit_check ::
  "Position \<Rightarrow> real \<Rightarrow> string option \<times> real \<Rightarrow> string option \<times> real" where
  "take_profit_check pos current_price before =
     (let tp = take_profit_price pos in
      if current_price \<ge> tp then (Some ''TAKE_PROFIT'', tp) else before)"

text \<open>
  The whole body, from the line that computes \<^verbatim>\<open>pnl_pct\<close> on; the current price is its
  argument. It returns the position as the loop leaves it (the dict is updated in place),
  the flag \<^verbatim>\<open>position_updated\<close> and the entry added to \<^verbatim>\<open>positions_to_close\<close>, if any.
  The division by the entry price raises when that price is zero, before anything is
  written.
\<close>

definition check_position ::
  "TradingConfig \<Rightarrow> Position \<Rightarrow> real \<Rightarrow> py_error + (Position \<times> bool \<times> CloseItem option)" where
  "check_position cfg pos current_price =
     (if price pos = 0 then Inl ZeroDivisionError
      else
        (let pnl_pct = position_pnl_pct pos current_price;
             pos1 = update_highest pos current_price;
             (pos2, u2) = breakeven_check cfg pos1 pnl_pct;
             (pos3, u3) = trailing_update cfg pos2;
             position_updated = (u2 \<or> u3);
             (close_reason, exit_price) =
               take_profit_check pos3 current_price (stop_loss_check pos3 current_price)
         in Inr (pos3, position_updated,
                 (case close_reason of
                    None \<Rightarrow> None
                  | Some r \<Rightarrow> Some \<lparr> ci_position = pos3, ci_current_price = exit_price,
                                    ci_reason = r, ci_pnl_pct = pnl_pct \<rparr>))))"

text \<open>
  The simulated price of \<^verbatim>\<open>check_position_limits\<close>; the value that \<^verbatim>\<open>random.uniform\<close> returns
  is its second argument.
\<close>

definition simulated_price :: "real \<Rightarrow> real \<Rightarrow> real" where
  "simulated_price entry_price price_change = min 0.99 (max 0.01 (entry_price + price_change))"

text \<open>
  The loop of \<^verbatim>\<open>check_position_limits\<close> over the open positions. \<open>rnd i\<close> is the value of the
  \<open>i\<close>-th call of \<^verbatim>\<open>random.uniform\<close>. The result has the positions as the loop leaves them
  and the database; an exception ends the loop and leaves the positions not yet visited
  as they were.
\<close>

fun check_positions ::
  "TradingConfig \<Rightarrow> Database \<Rightarrow> (nat \<Rightarrow> real) \<Rightarrow> nat \<Rightarrow> Position list
     \<Rightarrow> (py_error + CloseItem list) \<times> Position list \<times> Database" where
  "check_positions cfg db rnd i [] = (Inr [], [], db)"
| "check_positions cfg db rnd i (pos # rest) =
     (case check_position cfg pos (simulated_price (price pos) (rnd i)) of
        Inl e \<Rightarrow> (Inl e, pos # rest, db)
      | Inr (pos', position_updated, item) \<Rightarrow>
          (let db1 = (if position_updated then update_open_position db pos' else db) in
           case check_positions cfg db1 rnd (Suc i) rest of
             (r, rest', db2) \<Rightarrow>
               ((case r of
                   Inl e \<Rightarrow> Inl e
                 | Inr items \<Rightarrow> Inr ((case item of None \<Rightarrow> [] | Some x \<Rightarrow> [x]) @ items)),
                pos' # rest', db2)))"

definition check_position_limits ::
  "TradingConfig \<Rightarrow> PolymarketTrader \<Rightarrow> Database \<Rightarrow> (nat \<Rightarrow> real)
     \<Rightarrow> (py_error + CloseItem list) \<times> PolymarketTrader \<times> Database" where
  "check_position_limits cfg tr db rnd =
     (case check_positions cfg db rnd 0 (paper_positions tr) of
        (r, ps, db') \<Rightarrow> (r, tr\<lparr> paper_positions := ps \<rparr>, db'))"

text \<open>The loop of \<^verbatim>\<open>close_positions_at_limit\<close> over the entries to close.\<close>

fun close_items ::
  "TradingConfig \<Rightarrow> PolymarketTrader \<Rightarrow> Database \<Rightarrow> datetime \<Rightarrow> CloseItem list
     \<Rightarrow> CloseResult list \<times> PolymarketTrader \<times> Database" where
  "close_items cfg tr db now [] = ([], tr, db)"
| "close_items cfg tr db now (item # items) =
     (case close_position cfg tr db now (ci_position item) (ci_current_price item)
             (ci_reason item) of
        (res, tr1, db1) \<Rightarrow>
          (case close_items cfg tr1 db1 now items of
             (rs, tr2, db2) \<Rightarrow>
               (res\<lparr> cr_close_reason := Some (ci_reason item) \<rparr> # rs, tr2, db2)))"

definition close_positions_at_limit ::
  "TradingConfig \<Rightarrow> PolymarketTrader \<Rightarrow> Database \<Rightarrow> datetime \<Rightarrow> (nat \<Rightarrow> real)
     \<Rightarrow> (py_error + CloseResult list) \<times> PolymarketTrader \<times> Database" where
  "close_positions_at_limit cfg tr db now rnd =
     (case check_position_limits cfg tr db rnd of
        (Inl e, tr1, db1) \<Rightarrow> (Inl e, tr1, db1)
      | (Inr items, tr1, db1) \<Rightarrow>
          (case close_items cfg tr1 db1 now items of
             (cl, tr2, db2) \<Rightarrow> (Inr cl, tr2, db2)))"

text \<open>
  Successive sweeps of the monitor over one position, one current price for each sweep,
  until a sweep asks for the close: the position as the last sweep leaves it, and the
  entry to close if there is one.
\<close>

fun monitor_path ::
  "TradingConfig \<Rightarrow> Position \<Rightarrow> real list \<Rightarrow> py_error + (Position \<times> CloseItem option)" where
  "monitor_path cfg pos [] = Inr (pos, None)"
| "monitor_path cfg pos (c # cs) =
     (case check_position cfg pos c of
        Inl e \<Rightarrow> Inl e
      | Inr (pos', position_updated, Some item) \<Rightarrow> Inr (pos', Some item)
      | Inr (pos', position_updated, None) \<Rightarrow> monitor_path cfg pos' cs)"


section \<open>trading/executor.py\<close>

definition MARKET_COOLDOWN_HOURS :: int where
  "MARKET_COOLDOWN_HOURS = 4"

text \<open>
  \<^verbatim>\<open>_load_recent_trades_from_db\<close>. \<open>track_trade\<close> is the body of its loop for one closed
  trade. The ISO text of a time stands for the time, so the parse of \<^verbatim>\<open>exit_time\<close> always
  succeeds and the fallback to \<^verbatim>\<open>entry_time\<close> is not taken; a row with an empty token is
  skipped.
\<close>

definition track_trade ::
  "datetime \<Rightarrow> (string \<rightharpoonup> datetime) \<Rightarrow> ClosedTrade \<Rightarrow> (string \<rightharpoonup> datetime)" where
  "track_trade cutoff traded trade =
     (let tok = ct_token_id trade; trade_time = ct_exit_time trade in
      if tok \<noteq> [] \<and> trade_time > cutoff
         \<and> (case traded tok of None \<Rightarrow> True | Some t \<Rightarrow> trade_time > t)
      then traded(tok \<mapsto> trade_time) else traded)"

definition load_recent_trades_from_db :: "Database \<Rightarrow> datetime \<Rightarrow> (string \<rightharpoonup> datetime)" where
  "load_recent_trades_from_db db now =
     (let cutoff = now - timedelta_hours MARKET_COOLDOWN_HOURS in
      foldl (track_trade cutoff) Map.empty (get_closed_trades db 100))"

text \<open>The dataclass \<^verbatim>\<open>MarketMatch\<close> of \<^verbatim>\<open>nlp/matcher.py\<close>.\<close>

record MarketMatch =
  m_market_id :: string
  m_question :: string
  m_current_yes_price :: real
  m_current_no_price :: real
  m_token_id_yes :: string
  m_token_id_no :: string
  m_fair_value :: real
  m_edge :: real
  m_recommended_side :: string
  m_recommended_token :: string
  m_confidence :: real
  m_liquidity :: real

text \<open>The news event of a decision is only carried along: its type is a parameter.\<close>

record 'e TradeDecision =
  d_event :: 'e
  d_match :: MarketMatch
  size_usd :: real
  size_shares :: real
  d_risk_amount :: real
  approved :: bool
  d_reason :: message
  executed :: bool
  d_result :: "Position option"

record ExecutorStats =
  trades_executed :: int
  trades_won :: int
  trades_lost :: int
  total_profit :: real
  total_volume :: real
  best_trade :: real
  worst_trade :: real

text \<open>
  The attributes of \<^verbatim>\<open>TradeExecutor\<close>: the statistics, the executed trades and the dict
  \<^verbatim>\<open>_traded_markets\<close> from a token to the time of its last trade. The callbacks are not
  modelled.
\<close>

record 'e TradeExecutor =
  stats :: ExecutorStats
  executed_trades :: "'e TradeDecision list"
  traded_markets :: "string \<rightharpoonup> datetime"

text \<open>\<^verbatim>\<open>TradeExecutor.__init__\<close>: the cooldowns are restored from the closed trades.\<close>

definition init_TradeExecutor :: "Database \<Rightarrow> datetime \<Rightarrow> 'e TradeExecutor" where
  "init_TradeExecutor db now =
     \<lparr> stats = \<lparr> trades_executed = 0, trades_won = 0, trades_lost = 0, total_profit = 0,
                 total_volume = 0, best_trade = 0, worst_trade = 0 \<rparr>,
       executed_trades = [], traded_markets = load_recent_trades_from_db db now \<rparr>"

text \<open>
  \<^verbatim>\<open>evaluate_opportunity\<close>. It changes nothing and returns the decision; the division by
  \<^verbatim>\<open>stop_loss_pct\<close> raises when that is zero.
\<close>

definition evaluate_opportunity ::
  "TradingConfig \<Rightarrow> PolymarketTrader \<Rightarrow> 'e TradeExecutor \<Rightarrow> datetime \<Rightarrow> 'e \<Rightarrow> MarketMatch
     \<Rightarrow> py_error + 'e TradeDecision" where
  "evaluate_opportunity cfg tr ex now ev mt =
     (let decision = \<lparr> d_event = ev, d_match = mt, size_usd = 0, size_shares = 0,
                        d_risk_amount = 0, approved = False, d_reason = NoReason,
                        executed = False, d_result = None \<rparr>;
          tok = m_recommended_token mt
      in if \<exists>pos \<in> set (get_positions cfg tr). token_id pos = tok then
           Inr (decision\<lparr> d_reason := AlreadyHaveOpenPosition \<rparr>)
         else if (case traded_markets ex tok of
                    None \<Rightarrow> False
                  | Some last_trade_time \<Rightarrow>
                      now < last_trade_time + timedelta_hours MARKET_COOLDOWN_HOURS) then
           (let cooldown_end = the (traded_markets ex tok) + timedelta_hours MARKET_COOLDOWN_HOURS;
                hours_remaining = total_seconds (cooldown_end - now) / 3600
            in Inr (decision\<lparr> d_reason := MarketOnCooldown hours_remaining \<rparr>))
         else if m_edge mt < min_edge_to_trade cfg then
           Inr (decision\<lparr> d_reason := EdgeBelowMinimum (m_edge mt) (min_edge_to_trade cfg) \<rparr>)
         else if m_confidence mt < 0.6 then
           Inr (decision\<lparr> d_reason := ConfidenceTooLow (m_confidence mt) \<rparr>)
         else if m_liquidity mt < 1000 then
           Inr (decision\<lparr> d_reason := LiquidityTooLow (m_liquidity mt) \<rparr>)
         else
           (let equity = get_balance cfg tr;
                dpnl = get_daily_pnl tr;
                max_daily_loss = equity * max_daily_loss_pct cfg
            in if dpnl \<le> - max_daily_loss then
                 Inr (decision\<lparr> d_reason := DailyLossLimitHit dpnl max_daily_loss \<rparr>)
               else if int (length (get_positions cfg tr)) \<ge> max_concurrent_positions cfg then
                 Inr (decision\<lparr> d_reason :=
                        MaxConcurrentPositionsReached (max_concurrent_positions cfg) \<rparr>)
               else if stop_loss_pct cfg = 0 then Inl ZeroDivisionError
               else
                 (let risk = sizing_risk_amount cfg equity;
                      sz_usd = min (suggested_raw cfg equity (m_edge mt) (m_confidence mt))
                                 (max_position cfg equity);
                      pr = (if m_recommended_side mt = ''YES'' then m_current_yes_price mt
                            else m_current_no_price mt)
                  in if pr \<le> 0 then Inr (decision\<lparr> d_reason := InvalidPrice \<rparr>)
                     else
                       Inr (decision\<lparr> size_usd := sz_usd, size_shares := sz_usd / pr,
                                     d_risk_amount := risk, approved := True,
                                     d_reason := EdgeRiskSize (m_edge mt) risk sz_usd \<rparr>))))"

text \<open>
  \<^verbatim>\<open>execute_trade\<close>. It returns the boolean, the decision, the trader, the database and the
  executor. \<open>live\<close> is what the exchange returns in live mode (see \<open>place_order\<close>).
\<close>

definition execute_trade ::
  "TradingConfig \<Rightarrow> PolymarketTrader \<Rightarrow> Database \<Rightarrow> 'e TradeExecutor \<Rightarrow> datetime
     \<Rightarrow> Position option \<Rightarrow> 'e TradeDecision
     \<Rightarrow> bool \<times> 'e TradeDecision \<times> PolymarketTrader \<times> Database \<times> 'e TradeExecutor" where
  "execute_trade cfg tr db ex now live decision =
     (if \<not> approved decision then (False, decision, tr, db, ex)
      else if \<not> auto_trade_enabled cfg then
        (False, decision\<lparr> d_reason := AutoTradeDisabled \<rparr>, tr, db, ex)
      else
        (let mt = d_match decision in
         case place_order cfg tr db now live (m_recommended_token mt) ''BUY''
                (size_shares decision)
                (if m_recommended_side mt = ''YES'' then m_current_yes_price mt
                 else m_current_no_price mt)
                (m_question mt) (d_risk_amount decision) [] of
           (Some order, tr1, db1) \<Rightarrow>
             (let decision1 = decision\<lparr> executed := True, d_result := Some order \<rparr>;
                  ex1 = ex\<lparr> stats := (stats ex)\<lparr> trades_executed := trades_executed (stats ex) + 1,
                                              total_volume := total_volume (stats ex)
                                                               + size_usd decision1 \<rparr>,
                            executed_trades := executed_trades ex @ [decision1],
                            traded_markets := (traded_markets ex)(m_recommended_token mt \<mapsto> now) \<rparr>
              in (True, decision1, tr1, db1, ex1))
         | (None, tr1, db1) \<Rightarrow>
             (False, decision\<lparr> d_reason := OrderPlacementFailed \<rparr>, tr1, db1, ex)))"

definition process_opportunity ::
  "TradingConfig \<Rightarrow> PolymarketTrader \<Rightarrow> Database \<Rightarrow> 'e TradeExecutor \<Rightarrow> datetime
     \<Rightarrow> Position option \<Rightarrow> 'e \<Rightarrow> MarketMatch
     \<Rightarrow> py_error + ('e TradeDecision \<times> PolymarketTrader \<times> Database \<times> 'e TradeExecutor)" where
  "process_opportunity cfg tr db ex now live ev mt =
     (case evaluate_opportunity cfg tr ex now ev mt of
        Inl e \<Rightarrow> Inl e
      | Inr decision \<Rightarrow>
          (if \<not> approved decision then Inr (decision, tr, db, ex)
           else (case execute_trade cfg tr db ex now live decision of
                   (success, decision1, tr1, db1, ex1) \<Rightarrow> Inr (decision1, tr1, db1, ex1))))"

section \<open>Sequences of calls\<close>

text \<open>
  Successive calls of \<^verbatim>\<open>can_trade\<close> on one risk manager; each call sees the trader as it is
  at that moment and reads the clock. The results, in order, and the manager at the end.
\<close>

fun can_trade_calls ::
  "TradingConfig \<Rightarrow> RiskManager \<Rightarrow> (PolymarketTrader \<times> datetime) list
     \<Rightarrow> py_error + (bool list \<times> RiskManager)" where
  "can_trade_calls cfg rm [] = Inr ([], rm)"
| "can_trade_calls cfg rm ((tr, now) # cs) =
     (case can_trade cfg tr rm now of
        Inl e \<Rightarrow> Inl e
      | Inr (b, rm') \<Rightarrow>
          (case can_trade_calls cfg rm' cs of
             Inl e \<Rightarrow> Inl e
           | Inr (bs, rm'') \<Rightarrow> Inr (b # bs, rm'')))"

text \<open>
  Successive calls of \<^verbatim>\<open>execute_trade\<close> on one executor, that is within one run of the
  process; each call sees the trader and the database as they are at that moment, reads
  the clock and, in live mode, gets its answer from the exchange. No other method writes
  to the executor (\<^verbatim>\<open>evaluate_opportunity\<close> returns a decision, the trader's methods do not
  know the executor), so this is every executor the process can reach. The result is the
  executor at the end.
\<close>

fun executor_after ::
  "TradingConfig \<Rightarrow> 'e TradeExecutor
     \<Rightarrow> (PolymarketTrader \<times> Database \<times> datetime \<times> Position option \<times> 'e TradeDecision) list
     \<Rightarrow> 'e TradeExecutor" where
  "executor_after cfg ex [] = ex"
| "executor_after cfg ex ((tr, db, now, live, decision) # cs) =
     (case execute_trade cfg tr db ex now live decision of
        (success, decision1, tr1, db1, ex1) \<Rightarrow> executor_after cfg ex1 cs)"

section \<open>A worked scenario\<close>

text \<open>
  The default configuration, ten thousand dollars of paper balance, no position, an empty
  database; one opportunity on the token \<open>T\<close> at price 0.50 with edge 0.4 and confidence
  0.8. The values named \<open>_open\<close> are the state after the opportunity has been processed at
  time 0.
\<close>

definition scenario_trader :: PolymarketTrader where
  "scenario_trader = \<lparr> positions = [], paper_balance = 10000, trader_daily_pnl = 0,
     trader_total_pnl = 0, real_balance = None, paper_positions = [], closed_trades = [] \<rparr>"

definition losing_trader :: PolymarketTrader where
  "losing_trader = scenario_trader\<lparr> trader_daily_pnl := - 2000 \<rparr>"

definition scenario_db :: Database where
  "scenario_db = \<lparr> open_positions_table = [], closed_trades_table = [],
     bot_state = \<lparr> bs_paper_balance = 10000, bs_daily_pnl = 0, bs_total_pnl = 0 \<rparr> \<rparr>"

definition scenario_executor :: "unit TradeExecutor" where
  "scenario_executor = init_TradeExecutor scenario_db 0"

definition scenario_match :: MarketMatch where
  "scenario_match = \<lparr> m_market_id = ''M'', m_question = ''Q'', m_current_yes_price = 0.5,
     m_current_no_price = 0.5, m_token_id_yes = ''T'', m_token_id_no = ''N'',
     m_fair_value = 0.9, m_edge = 0.4, m_recommended_side = ''YES'',
     m_recommended_token = ''T'', m_confidence = 0.8, m_liquidity = 5000 \<rparr>"

definition scenario_position :: Position where
  "scenario_position = \<lparr> ident = PaperId 0, token_id = ''T'', market = ''Q'', side = ''BUY'',
     prediction = Some ''YES'', psize = 6000, price = 0.5, pvalue = 3000, risk_amount = 500,
     status = ''FILLED'', timestamp = 0, paper = True, stop_loss_price = 0.425,
     take_profit_price = 0.65, breakeven_trigger_price = 0.55, highest_price = 0.5,
     breakeven_triggered = False, trailing_stop_active = False \<rparr>"

definition scenario_decision :: "unit TradeDecision" where
  "scenario_decision = \<lparr> d_event = (), d_match = scenario_match, size_usd = 3000,
     size_shares = 6000, d_risk_amount = 500, approved = True,
     d_reason = EdgeRiskSize 0.4 500 3000, executed = True,
     d_result = Some scenario_position \<rparr>"

definition scenario_trader_open :: PolymarketTrader where
  "scenario_trader_open = scenario_trader\<lparr> paper_balance := 7000,
     paper_positions := [scenario_position] \<rparr>"

definition scenario_db_open :: Database where
  "scenario_db_open = scenario_db\<lparr> open_positions_table := [row_of_position scenario_position] \<rparr>"

definition scenario_executor_open :: "unit TradeExecutor" where
  "scenario_executor_open = scenario_executor\<lparr>
     stats := (stats scenario_executor)\<lparr> trades_executed := 1, total_volume := 3000 \<rparr>,
     executed_trades := [scenario_decision], traded_markets := [''T'' \<mapsto> 0] \<rparr>"

text \<open>The scenario position after the sweep at price 0.60, with and without trailing stop.\<close>

definition scenario_trailing :: Position where
  "scenario_trailing = scenario_position\<lparr> highest_price := 0.6, breakeven_triggered := True,
     trailing_stop_active := True, stop_loss_price := 0.54 \<rparr>"

definition scenario_breakeven :: Position where
  "scenario_breakeven = scenario_position\<lparr> highest_price := 0.6, breakeven_triggered := True,
     stop_loss_price := 0.5 \<rparr>"

definition no_trailing_config :: TradingConfig where
  "no_trailing_config = default_config\<lparr> use_trailing_stop := False \<rparr>"

text \<open>A position whose stop is above its take-profit level: both conditions can hold.\<close>

definition crossed_position :: Position where
  "crossed_position = scenario_position\<lparr> breakeven_triggered := True, stop_loss_price := 0.6,
     take_profit_price := 0.55 \<rparr>"

text \<open>
  A paper trader that holds the crossed position alone, its database, and draws of
  \<^verbatim>\<open>random.uniform(-0.05, 0.08)\<close> that are all 0.06: the simulated price is 0.56, between the
  take-profit level and the stop.
\<close>

definition crossed_trader :: PolymarketTrader where
  "crossed_trader = scenario_trader_open\<lparr> paper_positions := [crossed_position] \<rparr>"

definition crossed_db :: Database where
  "crossed_db = scenario_db\<lparr> open_positions_table := [row_of_position crossed_position] \<rparr>"

definition crossed_draw :: "nat \<Rightarrow> real" where
  "crossed_draw i = 0.06"

text \<open>
  A later call of \<open>execute_trade\<close> in the same process, half an hour after the first, on the
  other token of the market.
\<close>

definition scenario_other_call ::
  "PolymarketTrader \<times> Database \<times> datetime \<times> Position option \<times> unit TradeDecision" where
  "scenario_other_call =
     (scenario_trader_open, scenario_db_open, 1800000000, None,
      scenario_decision\<lparr> d_match := scenario_match\<lparr> m_recommended_token := ''N'' \<rparr> \<rparr>)"

text \<open>
  The trader and the database after the scenario position has been closed at 0.60, two
  hours after it was opened.
\<close>

definition scenario_trader_closed :: PolymarketTrader where
  "scenario_trader_closed =
     fst (snd (close_position default_config scenario_trader_open scenario_db_open 7200000000
                 scenario_position 0.6 ''MANUAL''))"

definition scenario_db_closed :: Database where
  "scenario_db_closed =
     snd (snd (close_position default_config scenario_trader_open scenario_db_open 7200000000
                 scenario_position 0.6 ''MANUAL''))"

section \<open>Basic facts\<close>

lemma upper_BUY [simp]: "upper ''BUY'' = ''BUY''"
  by code_simp

lemma timedelta_4 [simp]: "timedelta_hours MARKET_COOLDOWN_HOURS = 14400000000"
  by (simp add: timedelta_hours_def MARKET_COOLDOWN_HOURS_def)

lemma check_status_returns:
  assumes "starting_capital cfg \<noteq> 0"
  shows "\<exists>st rm'. check_status cfg tr rm now = Inr (st, rm') \<and> balance st = get_balance cfg tr"
  using assms
  by (auto simp add: check_status_def limit_checks_def initial_status_def Let_def split: option.splits)

lemma paused_check:
  assumes "starting_capital cfg \<noteq> 0" and "trading_paused rm" and "pause_until rm = Some u" and "t \<le> u"
  shows "check_status cfg tr rm t
          = Inr ((initial_status cfg tr)\<lparr> is_trading_allowed := False, reason := pause_reason rm \<rparr>, rm)"
  using assms by (simp add: check_status_def Let_def)

lemma paused_can_trade_calls:
  assumes "starting_capital cfg \<noteq> 0" and "trading_paused rm" and "pause_until rm = Some u"
    and "\<forall>(tr, t) \<in> set calls. t \<le> u"
  shows "can_trade_calls cfg rm calls = Inr (replicate (length calls) False, rm)"
  using assms(4)
proof (induction calls)
  case Nil
  then show ?case by simp
next
  case (Cons c cs)
  obtain tr t where c: "c = (tr, t)" by (cases c)
  with Cons.prems have "t \<le> u" by simp
  from paused_check [OF assms(1-3) this]
  have "can_trade cfg tr rm t = Inr (False, rm)" by (simp add: can_trade_def)
  moreover have "can_trade_calls cfg rm cs = Inr (replicate (length cs) False, rm)"
    using Cons by simp
  ultimately show ?case using c by simp
qed

lemma expired_check:
  assumes "starting_capital cfg \<noteq> 0" and "trading_paused rm" and "pause_until rm = Some u" and "u < t"
  shows "check_status cfg tr rm t
          = Inr (limit_checks cfg (initial_status cfg tr)
                   (rm\<lparr> trading_paused := False, pause_reason := NoReason \<rparr>) t)"
  using assms by (simp add: check_status_def Let_def)

lemma loss_observed:
  assumes "starting_capital cfg \<noteq> 0"
    and "\<not> trading_paused rm \<or> (\<exists>u. pause_until rm = Some u \<and> u < tobs)"
    and "get_daily_pnl tr \<le> - (get_balance cfg tr * max_daily_loss_pct cfg)"
  shows "\<exists>st rm1. check_status cfg tr rm tobs = Inr (st, rm1) \<and> \<not> is_trading_allowed st
           \<and> reason st = RiskDailyLossLimitHit (get_daily_pnl tr) (get_balance cfg tr * max_daily_loss_pct cfg)
           \<and> trading_paused rm1 \<and> pause_reason rm1 = reason st
           \<and> pause_until rm1 = Some (tobs + timedelta_hours 4)"
  using assms
  by (auto simp add: check_status_def limit_checks_def initial_status_def pause_trading_def Let_def)

lemmas check_position_defs =
  check_position_def position_pnl_pct_def update_highest_def breakeven_check_def
  trailing_update_def stop_loss_check_def take_profit_check_def Let_def

lemma check_position_returns:
  "price pos \<noteq> 0 \<Longrightarrow> \<exists>pos' u it. check_position cfg pos c = Inr (pos', u, it)"
  by (simp add: check_position_def Let_def split: prod.splits)

lemma update_highest_fields:
  "price (update_highest pos c) = price pos"
  "stop_loss_price (update_highest pos c) = stop_loss_price pos"
  "take_profit_price (update_highest pos c) = take_profit_price pos"
  "breakeven_triggered (update_highest pos c) = breakeven_triggered pos"
  "trailing_stop_active (update_highest pos c) = trailing_stop_active pos"
  "highest_price (update_highest pos c) = max (highest_price pos) c"
  by (simp_all add: update_highest_def)

lemma breakeven_check_fields:
  assumes "breakeven_check cfg pos q = (pos', u)"
  shows "price pos' = price pos" "take_profit_price pos' = take_profit_price pos"
    "highest_price pos' = highest_price pos"
    "breakeven_triggered pos \<Longrightarrow> pos' = pos \<and> \<not> u"
    "breakeven_triggered pos \<or> q \<ge> breakeven_trigger_pct cfg \<longleftrightarrow> breakeven_triggered pos'"
    "\<not> breakeven_triggered pos \<Longrightarrow> q \<ge> breakeven_trigger_pct cfg \<Longrightarrow>
       stop_loss_price pos' = price pos \<and> trailing_stop_active pos' = use_trailing_stop cfg \<and> u"
    "\<not> q \<ge> breakeven_trigger_pct cfg \<Longrightarrow> pos' = pos \<and> \<not> u"
  using assms by (auto simp add: breakeven_check_def split: if_splits)

lemma trailing_update_fields:
  assumes "trailing_update cfg pos = (pos', u)"
  shows "price pos' = price pos" "take_profit_price pos' = take_profit_price pos"
    "highest_price pos' = highest_price pos"
    "breakeven_triggered pos' = breakeven_triggered pos"
    "trailing_stop_active pos' = trailing_stop_active pos"
    "stop_loss_price pos \<le> stop_loss_price pos'"
    "stop_loss_price pos' = stop_loss_price pos \<and> \<not> u
      \<or> (trailing_stop_active pos \<and> u
          \<and> stop_loss_price pos' = highest_price pos * (1 - trailing_stop_pct cfg)
          \<and> stop_loss_price pos < stop_loss_price pos')"
  using assms by (auto simp add: trailing_update_def Let_def split: if_splits)

lemma check_position_unfold:
  assumes "check_position cfg pos c = Inr (pos', u, it)"
  obtains pos2 u2 u3 where "price pos \<noteq> 0"
    and "breakeven_check cfg (update_highest pos c) (position_pnl_pct pos c) = (pos2, u2)"
    and "trailing_update cfg pos2 = (pos', u3)"
    and "u = (u2 \<or> u3)"
    and "it = (case take_profit_check pos' c (stop_loss_check pos' c) of
                 (None, e) \<Rightarrow> None
               | (Some r, e) \<Rightarrow> Some \<lparr> ci_position = pos', ci_current_price = e,
                                    ci_reason = r, ci_pnl_pct = position_pnl_pct pos c \<rparr>)"
  using assms
  by (auto simp add: check_position_def Let_def split: if_splits prod.splits)

lemma check_position_triggered_step:
  assumes "check_position cfg pos c = Inr (pos', u, it)" and "breakeven_triggered pos"
  shows "breakeven_triggered pos' \<and> price pos' = price pos
         \<and> stop_loss_price pos \<le> stop_loss_price pos'
         \<and> (stop_loss_price pos' = stop_loss_price pos
             \<or> (trailing_stop_active pos
                 \<and> stop_loss_price pos' = highest_price pos' * (1 - trailing_stop_pct cfg)
                 \<and> stop_loss_price pos < stop_loss_price pos'))"
proof -
  from assms(1) obtain pos2 u2 u3 where
    b: "breakeven_check cfg (update_highest pos c) (position_pnl_pct pos c) = (pos2, u2)"
    and t: "trailing_update cfg pos2 = (pos', u3)"
    by (rule check_position_unfold)
  have "breakeven_triggered (update_highest pos c)"
    using assms(2) by (simp add: update_highest_fields)
  with breakeven_check_fields(4) [OF b] have p2: "pos2 = update_highest pos c" by simp
  show ?thesis
    using trailing_update_fields [OF t] assms(2)
    by (auto simp add: p2 update_highest_fields)
qed

lemma check_position_transition_step:
  assumes "check_position cfg pos c = Inr (pos', u, it)" and "\<not> breakeven_triggered pos"
    and "position_pnl_pct pos c \<ge> breakeven_trigger_pct cfg"
  shows "breakeven_triggered pos' \<and> trailing_stop_active pos' = use_trailing_stop cfg
         \<and> (stop_loss_price pos' = price pos
             \<or> (use_trailing_stop cfg
                 \<and> stop_loss_price pos' = highest_price pos' * (1 - trailing_stop_pct cfg)
                 \<and> price pos < stop_loss_price pos'))"
proof -
  from assms(1) obtain pos2 u2 u3 where
    b: "breakeven_check cfg (update_highest pos c) (position_pnl_pct pos c) = (pos2, u2)"
    and t: "trailing_update cfg pos2 = (pos', u3)"
    by (rule check_position_unfold)
  have n: "\<not> breakeven_triggered (update_highest pos c)"
    using assms(2) by (simp add: update_highest_fields)
  from breakeven_check_fields(6) [OF b n assms(3)] breakeven_check_fields(5) [OF b] assms(3)
  have p2: "stop_loss_price pos2 = price pos" "trailing_stop_active pos2 = use_trailing_stop cfg"
    "breakeven_triggered pos2"
    by (simp_all add: update_highest_fields)
  show ?thesis
    using trailing_update_fields [OF t] p2 by auto
qed

lemma monitor_path_triggered:
  assumes "breakeven_triggered pos" and "price pos \<noteq> 0"
  shows "\<exists>pos' it. monitor_path cfg pos cs = Inr (pos', it) \<and> breakeven_triggered pos'
           \<and> stop_loss_price pos \<le> stop_loss_price pos'"
  using assms
proof (induction cs arbitrary: pos)
  case Nil
  then show ?case by simp
next
  case (Cons c cs)
  from check_position_returns [OF Cons.prems(2)] obtain pos1 u it1
    where cp: "check_position cfg pos c = Inr (pos1, u, it1)" by blast
  from check_position_triggered_step [OF cp Cons.prems(1)]
  have s: "breakeven_triggered pos1" "price pos1 = price pos"
    "stop_loss_price pos \<le> stop_loss_price pos1" by simp_all
  show ?case
  proof (cases it1)
    case None
    from Cons.IH [of pos1] s Cons.prems(2) obtain pos' it where
      "monitor_path cfg pos1 cs = Inr (pos', it)" "breakeven_triggered pos'"
      "stop_loss_price pos1 \<le> stop_loss_price pos'" by auto
    with cp None s(3) show ?thesis by auto
  next
    case (Some a)
    with cp s show ?thesis by auto
  qed
qed

lemma stop_loss_check_cases:
  "stop_loss_check pos c =
     (if 0 < stop_loss_price pos \<and> c \<le> stop_loss_price pos
      then (Some (if trailing_stop_active pos then ''TRAILING_STOP''
                  else if breakeven_triggered pos then ''BREAKEVEN_STOP'' else ''STOP_LOSS''),
            stop_loss_price pos)
      else (None, c))"
  by (simp add: stop_loss_check_def Let_def)

lemma close_position_pnl:
  "cr_pnl (fst (close_position cfg tr db now p e r))
     = (if upper (side p) = ''BUY'' then (e - price p) * psize p else (price p - e) * psize p)"
  by (simp add: close_position_def Let_def)

lemma position_of_row_of_position:
  "position_of_row (row_of_position p) = p\<lparr> prediction := None, status := ''FILLED'' \<rparr>"
  by (simp add: position_of_row_def row_of_position_def)

lemma paper_order_fields:
  assumes "paper_order cfg tr db now tok sd sz pr q risk pred = (Some p, tr', db')"
  shows "status p = ''FILLED''" "\<exists>x. prediction p = Some x" "ident p = PaperId now"
  using assms by (auto simp add: paper_order_def Let_def split: if_splits)

lemma paper_order_buy_db:
  assumes "paper_order cfg tr db now tok sd sz pr q risk pred = (Some p, tr', db')"
    and "upper sd = ''BUY''"
  shows "db' = save_open_position db p" "paper_positions tr' = paper_positions tr @ [p]"
  using assms by (auto simp add: paper_order_def Let_def split: if_splits)

lemma track_trade_cases:
  "track_trade cutoff m x k = Some t \<Longrightarrow>
     m k = Some t \<or> (k = ct_token_id x \<and> t = ct_exit_time x \<and> cutoff < t)"
  by (simp add: track_trade_def Let_def split: if_splits)

lemma foldl_track_trade_cases:
  "foldl (track_trade cutoff) m xs k = Some t \<Longrightarrow>
     m k = Some t \<or> (\<exists>x \<in> set xs. k = ct_token_id x \<and> t = ct_exit_time x \<and> cutoff < t)"
proof (induction xs arbitrary: m)
  case Nil
  then show ?case by simp
next
  case (Cons x xs)
  from Cons.prems have "foldl (track_trade cutoff) (track_trade cutoff m x) xs k = Some t"
    by simp
  from Cons.IH [OF this]
  consider "track_trade cutoff m x k = Some t"
    | "\<exists>y \<in> set xs. k = ct_token_id y \<and> t = ct_exit_time y \<and> cutoff < t"
    by blast
  then show ?case
  proof cases
    case 1
    from track_trade_cases [OF 1] show ?thesis by auto
  next
    case 2
    then show ?thesis by auto
  qed
qed

text \<open>
  A cooldown restored at start-up comes from a closed trade of that token and is younger
  than the cooldown window.
\<close>

lemma load_recent_trades_within_window:
  assumes "load_recent_trades_from_db db now tok = Some t"
  shows "now < t + timedelta_hours MARKET_COOLDOWN_HOURS
         \<and> (\<exists>row \<in> set (closed_trades_table db). ct_token_id row = tok \<and> ct_exit_time row = t)"
proof -
  have s: "set (get_closed_trades db 100) \<subseteq> set (closed_trades_table db)"
    using set_take_subset [of 100 "sort_key (\<lambda>r. - ct_exit_time r) (closed_trades_table db)"]
    by (simp add: get_closed_trades_def)
  from assms have "foldl (track_trade (now - timedelta_hours MARKET_COOLDOWN_HOURS)) Map.empty
                     (get_closed_trades db 100) tok = Some t"
    by (simp add: load_recent_trades_from_db_def Let_def)
  from foldl_track_trade_cases [OF this] obtain x where
    x: "x \<in> set (get_closed_trades db 100)" "tok = ct_token_id x" "t = ct_exit_time x"
       "now - timedelta_hours MARKET_COOLDOWN_HOURS < t"
    by auto
  from x(1) s have "x \<in> set (closed_trades_table db)" by blast
  with x(2,3,4) show ?thesis by auto
qed

lemma evaluate_opportunity_low_edge:
  "m_edge mt < min_edge_to_trade cfg \<Longrightarrow>
     \<exists>d. evaluate_opportunity cfg tr ex now ev mt = Inr d \<and> \<not> approved d"
  by (simp add: evaluate_opportunity_def Let_def)

lemma evaluate_opportunity_size:
  assumes "evaluate_opportunity cfg tr ex now ev mt = Inr d" and "approved d"
  shows "size_usd d = min (suggested_raw cfg (get_balance cfg tr) (m_edge mt) (m_confidence mt))
                          (max_position cfg (get_balance cfg tr))"
proof -
  let ?sz = "min (suggested_raw cfg (get_balance cfg tr) (m_edge mt) (m_confidence mt))
                 (max_position cfg (get_balance cfg tr))"
  have "\<exists>d'. evaluate_opportunity cfg tr ex now ev mt = Inr d' \<and> (approved d' \<longrightarrow> size_usd d' = ?sz)
        \<or> evaluate_opportunity cfg tr ex now ev mt = Inl ZeroDivisionError"
    by (simp add: evaluate_opportunity_def Let_def)
  with assms show ?thesis by auto
qed

text \<open>What \<open>execute_trade\<close> and the loader write into \<open>traded_markets\<close>.\<close>

lemma execute_trade_records:
  assumes "execute_trade cfg tr db ex now live decision = (True, decision1, tr1, db1, ex1)"
  shows "traded_markets ex1 = (traded_markets ex)(m_recommended_token (d_match decision) \<mapsto> now)"
  using assms
  by (auto simp add: execute_trade_def Let_def split: if_splits prod.splits option.splits)

lemma execute_trade_other_token:
  assumes "execute_trade cfg tr db ex now live decision = (s, decision1, tr1, db1, ex1)"
    and "m_recommended_token (d_match decision) \<noteq> tok"
  shows "traded_markets ex1 tok = traded_markets ex tok"
  using assms
  by (auto simp add: execute_trade_def Let_def split: if_splits prod.splits option.splits)

lemma executor_after_other_tokens:
  assumes "\<forall>(tr, db, now, live, decision) \<in> set calls.
             m_recommended_token (d_match decision) \<noteq> tok"
  shows "traded_markets (executor_after cfg ex calls) tok = traded_markets ex tok"
  using assms
proof (induction calls arbitrary: ex)
  case Nil
  then show ?case by simp
next
  case (Cons c cs)
  obtain tr db now live decision where c: "c = (tr, db, now, live, decision)"
    by (cases c)
  obtain s d1 tr1 db1 ex1 where
    e: "execute_trade cfg tr db ex now live decision = (s, d1, tr1, db1, ex1)"
    by (cases "execute_trade cfg tr db ex now live decision")
  from Cons.prems c have n: "m_recommended_token (d_match decision) \<noteq> tok"
    and r: "\<forall>(tr, db, now, live, decision) \<in> set cs.
              m_recommended_token (d_match decision) \<noteq> tok"
    by simp_all
  have "traded_markets (executor_after cfg ex1 cs) tok = traded_markets ex1 tok"
    using Cons.IH [OF r] .
  with execute_trade_other_token [OF e n] c e show ?case by simp
qed

lemma cooldown_check:
  assumes "traded_markets ex (m_recommended_token mt) = Some t"
  shows "(now < t + timedelta_hours MARKET_COOLDOWN_HOURS \<longrightarrow>
            (\<exists>d. evaluate_opportunity cfg tr ex now ev mt = Inr d \<and> \<not> approved d
               \<and> d_reason d =
                   (if \<exists>pos \<in> set (get_positions cfg tr). token_id pos = m_recommended_token mt
                    then AlreadyHaveOpenPosition
                    else MarketOnCooldown
                           (total_seconds (t + timedelta_hours MARKET_COOLDOWN_HOURS - now) / 3600))))
         \<and> (t + timedelta_hours MARKET_COOLDOWN_HOURS \<le> now \<longrightarrow>
              (\<forall>d h. evaluate_opportunity cfg tr ex now ev mt = Inr d \<longrightarrow>
                      d_reason d \<noteq> MarketOnCooldown h))"
proof (intro conjI impI)
  assume "now < t + timedelta_hours MARKET_COOLDOWN_HOURS"
  with assms show "\<exists>d. evaluate_opportunity cfg tr ex now ev mt = Inr d \<and> \<not> approved d
               \<and> d_reason d =
                   (if \<exists>pos \<in> set (get_positions cfg tr). token_id pos = m_recommended_token mt
                    then AlreadyHaveOpenPosition
                    else MarketOnCooldown
                           (total_seconds (t + timedelta_hours MARKET_COOLDOWN_HOURS - now) / 3600))"
    by (simp add: evaluate_opportunity_def Let_def)
next
  assume "t + timedelta_hours MARKET_COOLDOWN_HOURS \<le> now"
  with assms show "\<forall>d h. evaluate_opportunity cfg tr ex now ev mt = Inr d \<longrightarrow>
                      d_reason d \<noteq> MarketOnCooldown h"
    by (auto simp add: evaluate_opportunity_def Let_def split: if_splits)
qed

lemma no_entry_no_cooldown:
  assumes "traded_markets ex (m_recommended_token mt) = None"
    and "evaluate_opportunity cfg tr ex now ev mt = Inr d"
  shows "d_reason d \<noteq> MarketOnCooldown h"
  using assms
  by (auto simp add: evaluate_opportunity_def Let_def split: if_splits)

lemma track_trade_mono:
  assumes "m k = Some t"
  shows "\<exists>t'. track_trade cutoff m x k = Some t' \<and> t \<le> t'"
  using assms by (auto simp add: track_trade_def Let_def)

lemma foldl_track_trade_mono:
  assumes "m k = Some t"
  shows "\<exists>t'. foldl (track_trade cutoff) m xs k = Some t' \<and> t \<le> t'"
  using assms
proof (induction xs arbitrary: m t)
  case Nil
  then show ?case by simp
next
  case (Cons x xs)
  from track_trade_mono [where m = m and k = k, OF Cons.prems] obtain t1
    where t1: "track_trade cutoff m x k = Some t1" "t \<le> t1" by blast
  from Cons.IH [where m = "track_trade cutoff m x", OF t1(1)] obtain t' where
    "foldl (track_trade cutoff) (track_trade cutoff m x) xs k = Some t'" "t1 \<le> t'" by blast
  with t1(2) show ?case by auto
qed

lemma track_trade_records:
  assumes "ct_token_id x \<noteq> []" and "cutoff < ct_exit_time x"
  shows "\<exists>t'. track_trade cutoff m x (ct_token_id x) = Some t' \<and> ct_exit_time x \<le> t'"
  using assms by (auto simp add: track_trade_def Let_def split: option.splits)

lemma foldl_track_trade_records:
  assumes "x \<in> set xs" and "ct_token_id x \<noteq> []" and "cutoff < ct_exit_time x"
  shows "\<exists>t'. foldl (track_trade cutoff) m xs (ct_token_id x) = Some t' \<and> ct_exit_time x \<le> t'"
  using assms(1)
proof (induction xs arbitrary: m)
  case Nil
  then show ?case by simp
next
  case (Cons y ys)
  show ?case
  proof (cases "x = y")
    case True
    from track_trade_records [OF assms(2,3)] obtain t1 where
      t1: "track_trade cutoff m x (ct_token_id x) = Some t1" "ct_exit_time x \<le> t1" by blast
    from foldl_track_trade_mono [where m = "track_trade cutoff m x" and k = "ct_token_id x",
           OF t1(1)]
    obtain t' where
      "foldl (track_trade cutoff) (track_trade cutoff m x) ys (ct_token_id x) = Some t'"
      "t1 \<le> t'" by blast
    with t1(2) True show ?thesis by auto
  next
    case False
    with Cons.prems have "x \<in> set ys" by simp
    from Cons.IH [OF this] show ?thesis by simp
  qed
qed

lemma load_recent_trades_records:
  assumes "x \<in> set (get_closed_trades db 100)" and "ct_token_id x \<noteq> []"
    and "now < ct_exit_time x + timedelta_hours MARKET_COOLDOWN_HOURS"
  shows "\<exists>t'. load_recent_trades_from_db db now (ct_token_id x) = Some t' \<and> ct_exit_time x \<le> t'"
proof -
  from assms(3) have "now - timedelta_hours MARKET_COOLDOWN_HOURS < ct_exit_time x" by simp
  from foldl_track_trade_records [OF assms(1,2) this]
  show ?thesis by (simp add: load_recent_trades_from_db_def Let_def)
qed

lemma track_trade_source:
  "track_trade cutoff m x k = Some t \<Longrightarrow>
     m k = Some t \<or> (k = ct_token_id x \<and> k \<noteq> [] \<and> t = ct_exit_time x \<and> cutoff < t)"
  by (auto simp add: track_trade_def Let_def split: if_splits)

lemma foldl_track_trade_source:
  "foldl (track_trade cutoff) m xs k = Some t \<Longrightarrow>
     m k = Some t
     \<or> (\<exists>x \<in> set xs. k = ct_token_id x \<and> k \<noteq> [] \<and> t = ct_exit_time x \<and> cutoff < t)"
proof (induction xs arbitrary: m)
  case Nil
  then show ?case by simp
next
  case (Cons x xs)
  from Cons.prems have "foldl (track_trade cutoff) (track_trade cutoff m x) xs k = Some t"
    by simp
  from Cons.IH [OF this]
  consider "track_trade cutoff m x k = Some t"
    | "\<exists>y \<in> set xs. k = ct_token_id y \<and> k \<noteq> [] \<and> t = ct_exit_time y \<and> cutoff < t"
    by blast
  then show ?case
  proof cases
    case 1
    from track_trade_source [OF 1] show ?thesis by auto
  next
    case 2
    then show ?thesis by auto
  qed
qed

text \<open>
  A cooldown restored at start-up is the latest exit time of the token among the closed
  trades that were read.
\<close>

lemma load_recent_trades_latest:
  assumes "load_recent_trades_from_db db now tok = Some t"
  shows "(\<exists>row \<in> set (get_closed_trades db 100). ct_token_id row = tok \<and> ct_exit_time row = t)"
    and "\<forall>row \<in> set (get_closed_trades db 100). ct_token_id row = tok \<longrightarrow> ct_exit_time row \<le> t"
proof -
  from assms have "foldl (track_trade (now - timedelta_hours MARKET_COOLDOWN_HOURS)) Map.empty
                     (get_closed_trades db 100) tok = Some t"
    by (simp add: load_recent_trades_from_db_def Let_def)
  from foldl_track_trade_source [OF this] obtain x where
    x: "x \<in> set (get_closed_trades db 100)" "tok = ct_token_id x" "tok \<noteq> []"
       "t = ct_exit_time x" "now - timedelta_hours MARKET_COOLDOWN_HOURS < t"
    by auto
  from x(1,2,4)
  show "\<exists>row \<in> set (get_closed_trades db 100). ct_token_id row = tok \<and> ct_exit_time row = t"
    by auto
  show "\<forall>row \<in> set (get_closed_trades db 100). ct_token_id row = tok \<longrightarrow> ct_exit_time row \<le> t"
  proof (intro ballI impI)
    fix row
    assume r: "row \<in> set (get_closed_trades db 100)" "ct_token_id row = tok"
    show "ct_exit_time row \<le> t"
    proof (cases "now < ct_exit_time row + timedelta_hours MARKET_COOLDOWN_HOURS")
      case True
      from r(2) x(3) have ne: "ct_token_id row \<noteq> []" by simp
      from load_recent_trades_records [OF r(1) ne True] r(2) assms show ?thesis by simp
    next
      case False
      with x(5) show ?thesis by simp
    qed
  qed
qed

lemma load_recent_trades_none:
  assumes "\<forall>row \<in> set (closed_trades_table db). ct_token_id row \<noteq> tok"
  shows "load_recent_trades_from_db db now tok = None"
proof (cases "load_recent_trades_from_db db now tok")
  case None
  then show ?thesis .
next
  case (Some t)
  from load_recent_trades_within_window [OF Some] assms show ?thesis by auto
qed

text \<open>What one sweep changes in a position, and the entry it gives.\<close>

lemma check_position_updates:
  assumes "check_position cfg pos c = Inr (pos', u, it)"
  shows "\<exists>h b t s. pos' = pos\<lparr> highest_price := h, breakeven_triggered := b,
                               trailing_stop_active := t, stop_loss_price := s \<rparr>"
proof -
  from assms obtain pos2 u2 u3 where
    b: "breakeven_check cfg (update_highest pos c) (position_pnl_pct pos c) = (pos2, u2)"
    and t: "trailing_update cfg pos2 = (pos', u3)"
    by (rule check_position_unfold)
  have 1: "update_highest pos c = pos\<lparr> highest_price := highest_price (update_highest pos c) \<rparr>"
    by (simp add: update_highest_def)
  have 2: "pos2 = (update_highest pos c)\<lparr> breakeven_triggered := breakeven_triggered pos2,
                     trailing_stop_active := trailing_stop_active pos2,
                     stop_loss_price := stop_loss_price pos2 \<rparr>"
    using b by (auto simp add: breakeven_check_def split: if_splits)
  have 3: "pos' = pos2\<lparr> stop_loss_price := stop_loss_price pos' \<rparr>"
    using t by (auto simp add: trailing_update_def Let_def split: if_splits)
  have "pos' = pos\<lparr> highest_price := highest_price (update_highest pos c),
                     breakeven_triggered := breakeven_triggered pos2,
                     trailing_stop_active := trailing_stop_active pos2,
                     stop_loss_price := stop_loss_price pos' \<rparr>"
    by (subst 3, subst 2, subst 1) simp
  then show ?thesis by blast
qed

lemma check_position_same_fields:
  assumes "check_position cfg pos c = Inr (pos', u, it)"
  shows "ident pos' = ident pos" "psize pos' = psize pos" "side pos' = side pos"
    "price pos' = price pos" "take_profit_price pos' = take_profit_price pos"
    "token_id pos' = token_id pos"
proof -
  from check_position_updates [OF assms] obtain h b t s where
    p: "pos' = pos\<lparr> highest_price := h, breakeven_triggered := b,
                      trailing_stop_active := t, stop_loss_price := s \<rparr>"
    by blast
  show "ident pos' = ident pos" "psize pos' = psize pos" "side pos' = side pos"
    "price pos' = price pos" "take_profit_price pos' = take_profit_price pos"
    "token_id pos' = token_id pos"
    by (simp_all add: p)
qed

lemma check_position_item:
  assumes "check_position cfg pos c = Inr (pos', u, Some item)"
  shows "ci_position item = pos'"
    "(ci_reason item, ci_current_price item)
       = (case take_profit_check pos' c (stop_loss_check pos' c) of (r, e) \<Rightarrow> (the r, e))"
    "ci_current_price item = stop_loss_price pos' \<or> ci_current_price item = take_profit_price pos'"
proof -
  from assms obtain pos2 u2 u3 where
    i: "Some item = (case take_profit_check pos' c (stop_loss_check pos' c) of
                 (None, e) \<Rightarrow> None
               | (Some r, e) \<Rightarrow> Some \<lparr> ci_position = pos', ci_current_price = e,
                                    ci_reason = r, ci_pnl_pct = position_pnl_pct pos c \<rparr>)"
    by (rule check_position_unfold)
  show "ci_position item = pos'"
    using i by (auto split: prod.splits option.splits)
  show "(ci_reason item, ci_current_price item)
       = (case take_profit_check pos' c (stop_loss_check pos' c) of (r, e) \<Rightarrow> (the r, e))"
    using i by (auto split: prod.splits option.splits)
  show "ci_current_price item = stop_loss_price pos' \<or> ci_current_price item = take_profit_price pos'"
    using i
    by (auto simp add: take_profit_check_def stop_loss_check_cases Let_def split: if_splits)
qed

text \<open>What \<open>close_position\<close> does to the result, the trader and the database.\<close>

lemma close_position_effect:
  assumes "close_position cfg tr db now p e r = (res, tr', db')"
  shows "\<exists>ct. cr_position res = p \<and> cr_exit_price res = e \<and> cr_close_reason res = None
           \<and> cr_pnl res = (if upper (side p) = ''BUY'' then (e - price p) * psize p
                           else (price p - e) * psize p)
           \<and> closed_trades tr' = closed_trades tr @ [ct]
           \<and> ct_id ct = ident p \<and> ct_token_id ct = token_id p \<and> ct_exit_price ct = e
           \<and> ct_close_reason ct = r \<and> ct_pnl ct = cr_pnl res \<and> ct_exit_time ct = now
           \<and> closed_trades_table db'
               = filter (\<lambda>row. ct_id row \<noteq> ident p) (closed_trades_table db)
                   @ [ct\<lparr> ct_prediction := None \<rparr>]
           \<and> trader_daily_pnl tr' = trader_daily_pnl tr + cr_pnl res
           \<and> trader_total_pnl tr' = trader_total_pnl tr + cr_pnl res
           \<and> (paper_trading cfg \<longrightarrow>
                 paper_balance tr' = paper_balance tr + psize p * e
                 \<and> paper_positions tr' = remove1 p (paper_positions tr)
                 \<and> open_positions_table db'
                     = filter (\<lambda>row. r_id row \<noteq> ident p) (open_positions_table db))"
  using assms
  by (auto simp add: close_position_def Let_def save_closed_trade_def save_bot_state_def
        delete_open_position_def remove1_idem)

lemma close_items_single:
  assumes "close_position cfg tr db now (ci_position item) (ci_current_price item)
             (ci_reason item) = (res, tr', db')"
  shows "close_items cfg tr db now [item]
           = ([res\<lparr> cr_close_reason := Some (ci_reason item) \<rparr>], tr', db')"
  using assms by simp

lemma sweep_single:
  assumes "check_position cfg pos c = Inr (pos', u, it)"
    and "paper_positions tr = [pos]" and "simulated_price (price pos) (rnd 0) = c"
  shows "check_position_limits cfg tr db rnd
           = (Inr (case it of None \<Rightarrow> [] | Some x \<Rightarrow> [x]), tr\<lparr> paper_positions := [pos'] \<rparr>,
              if u then update_open_position db pos' else db)"
  using assms by (simp add: check_position_limits_def)


section \<open>The scenario, evaluated\<close>

lemma scenario_executor_eq:
  "scenario_executor
     = \<lparr> stats = \<lparr> trades_executed = 0, trades_won = 0, trades_lost = 0, total_profit = 0,
                     total_volume = 0, best_trade = 0, worst_trade = 0 \<rparr>,
         executed_trades = [], traded_markets = Map.empty \<rparr>"
  by (simp add: scenario_executor_def init_TradeExecutor_def load_recent_trades_from_db_def
        get_closed_trades_def scenario_db_def)

lemma scenario_executor_open_eq:
  "scenario_executor_open
     = \<lparr> stats = \<lparr> trades_executed = 1, trades_won = 0, trades_lost = 0, total_profit = 0,
                     total_volume = 3000, best_trade = 0, worst_trade = 0 \<rparr>,
         executed_trades = [scenario_decision], traded_markets = [''T'' \<mapsto> 0] \<rparr>"
  by (simp add: scenario_executor_open_def scenario_executor_eq)

lemma scenario_evaluate:
  "evaluate_opportunity default_config scenario_trader scenario_executor 0 () scenario_match
     = Inr (scenario_decision\<lparr> executed := False, d_result := None \<rparr>)"
  by (simp add: evaluate_opportunity_def default_config_def scenario_trader_def
      scenario_executor_eq scenario_match_def scenario_decision_def get_positions_def
      get_balance_def get_daily_pnl_def sizing_risk_amount_def suggested_raw_def base_size_def
      edge_multiplier_def max_position_def Let_def)

lemma scenario_paper_order:
  "paper_order default_config scenario_trader scenario_db 0 ''T'' ''BUY'' 6000 (1 / 2) ''Q'' 500 []
     = (Some scenario_position, scenario_trader_open, scenario_db_open)"
  by (simp add: paper_order_def default_config_def scenario_trader_def scenario_db_def
      scenario_position_def scenario_trader_open_def scenario_db_open_def
      save_open_position_def Let_def)

lemma scenario_place_order:
  "place_order default_config scenario_trader scenario_db 0 None ''T'' ''BUY'' 6000 (1 / 2) ''Q'' 500 []
     = (Some scenario_position, scenario_trader_open, scenario_db_open)"
  unfolding scenario_paper_order [symmetric]
  by (simp add: place_order_def default_config_def scenario_trader_def Let_def)

lemma scenario_process:
  "process_opportunity default_config scenario_trader scenario_db scenario_executor 0 None ()
       scenario_match
     = Inr (scenario_decision, scenario_trader_open, scenario_db_open, scenario_executor_open)"
proof -
  have e: "execute_trade default_config scenario_trader scenario_db scenario_executor 0 None
             (scenario_decision\<lparr> executed := False, d_result := None \<rparr>)
           = (True, scenario_decision, scenario_trader_open, scenario_db_open, scenario_executor_open)"
    by (simp add: execute_trade_def Let_def scenario_decision_def scenario_match_def
        scenario_place_order scenario_executor_eq scenario_executor_open_eq)
       (simp add: default_config_def fun_upd_def)
  show ?thesis
    by (simp add: process_opportunity_def scenario_evaluate e)
       (simp add: scenario_decision_def)
qed

lemma default_ticks:
  "check_position default_config scenario_position (1 / 2) = Inr (scenario_position, False, None)"
  "check_position default_config scenario_position (3 / 5) = Inr (scenario_trailing, True, None)"
  "check_position default_config scenario_trailing (11 / 20) = Inr (scenario_trailing, False, None)"
  "check_position default_config scenario_trailing (1 / 2)
     = Inr (scenario_trailing, False,
            Some \<lparr> ci_position = scenario_trailing, ci_current_price = 27 / 50,
                   ci_reason = ''TRAILING_STOP'', ci_pnl_pct = 0 \<rparr>)"
  by (simp_all add: check_position_defs default_config_def scenario_position_def
       scenario_trailing_def)

lemma no_trailing_ticks:
  "check_position no_trailing_config scenario_position (1 / 2)
     = Inr (scenario_position, False, None)"
  "check_position no_trailing_config scenario_position (3 / 5)
     = Inr (scenario_breakeven, True, None)"
  "check_position no_trailing_config scenario_breakeven (11 / 20)
     = Inr (scenario_breakeven, False, None)"
  "check_position no_trailing_config scenario_breakeven (1 / 2)
     = Inr (scenario_breakeven, False,
            Some \<lparr> ci_position = scenario_breakeven, ci_current_price = 1 / 2,
                   ci_reason = ''BREAKEVEN_STOP'', ci_pnl_pct = 0 \<rparr>)"
  by (simp_all add: check_position_defs default_config_def scenario_position_def
       scenario_breakeven_def no_trailing_config_def)

lemma default_path:
  "monitor_path default_config scenario_position [0.5, 0.6, 0.55, 0.5]
     = Inr (scenario_trailing,
            Some \<lparr> ci_position = scenario_trailing, ci_current_price = 0.54,
                   ci_reason = ''TRAILING_STOP'', ci_pnl_pct = 0 \<rparr>)"
  by (simp add: default_ticks)

lemma no_trailing_path:
  "monitor_path no_trailing_config scenario_position [0.5, 0.6, 0.55, 0.5]
     = Inr (scenario_breakeven,
            Some \<lparr> ci_position = scenario_breakeven, ci_current_price = 0.5,
                   ci_reason = ''BREAKEVEN_STOP'', ci_pnl_pct = 0 \<rparr>)"
  by (simp add: no_trailing_ticks)

lemma scenario_execute:
  "execute_trade default_config scenario_trader scenario_db scenario_executor 0 None
     (scenario_decision\<lparr> executed := False, d_result := None \<rparr>)
   = (True, scenario_decision, scenario_trader_open, scenario_db_open, scenario_executor_open)"
  by (simp add: execute_trade_def Let_def scenario_decision_def scenario_match_def
        scenario_place_order scenario_executor_eq scenario_executor_open_eq)
     (simp add: default_config_def fun_upd_def)

lemma scenario_closed_fields:
  "paper_positions scenario_trader_closed = []"
  "positions scenario_trader_closed = []"
  "paper_balance scenario_trader_closed = 10600"
  "trader_daily_pnl scenario_trader_closed = 600"
  "map ct_token_id (closed_trades_table scenario_db_closed) = [''T'']"
  "map ct_exit_time (closed_trades_table scenario_db_closed) = [7200000000]"
  by (simp_all add: scenario_trader_closed_def scenario_db_closed_def close_position_def Let_def
        default_config_def scenario_trader_open_def scenario_trader_def scenario_db_open_def
        scenario_db_def scenario_position_def save_closed_trade_def save_bot_state_def
        delete_open_position_def)

lemma scenario_evaluate_after_restart:
  assumes "traded_markets ex ''T'' = None"
  shows "\<exists>d. evaluate_opportunity default_config scenario_trader_closed ex 9000000000 ()
               scenario_match = Inr d \<and> approved d"
  using assms
  by (simp add: evaluate_opportunity_def Let_def get_positions_def get_balance_def
        get_daily_pnl_def scenario_closed_fields scenario_match_def default_config_def)

lemma scenario_evaluate_after_cooldown:
  assumes "traded_markets ex ''T'' = Some 0"
  shows "\<exists>d. evaluate_opportunity default_config scenario_trader_closed ex 14400000000 ()
               scenario_match = Inr d \<and> approved d"
  using assms
  by (simp add: evaluate_opportunity_def Let_def get_positions_def get_balance_def
        get_daily_pnl_def scenario_closed_fields scenario_match_def default_config_def)

lemma crossed_tick:
  "check_position default_config crossed_position (14 / 25)
     = Inr (crossed_position\<lparr> highest_price := 14 / 25 \<rparr>, False,
            Some \<lparr> ci_position = crossed_position\<lparr> highest_price := 14 / 25 \<rparr>,
                   ci_current_price = 11 / 20, ci_reason = ''TAKE_PROFIT'',
                   ci_pnl_pct = 3 / 25 \<rparr>)"
  by (simp add: check_position_defs default_config_def scenario_position_def
       crossed_position_def)

section \<open>Position sizing\<close>

text \<open>
  C1. With a balance that is not negative, edge and confidence in \<open>[0, 1]\<close>, a positive
  \<open>stop_loss_pct\<close>, and the two configured fractions in their domain (\<open>max_position_pct\<close>
  not negative, \<open>starting_capital\<close> not zero, on which \<open>check_status\<close> divides),
  \<open>suggest_position_size\<close> returns a size, and the size is between zero and
  \<open>equity * max_position_pct\<close>.
\<close>

theorem suggest_position_size_bounds:
  assumes "0 \<le> get_balance cfg tr"
    and "0 \<le> edge" and "edge \<le> 1" and "0 \<le> confidence" and "confidence \<le> 1"
    and "0 < stop_loss_pct cfg" and "0 \<le> max_position_pct cfg"
    and "starting_capital cfg \<noteq> 0"
  shows "\<exists>sz rm'. suggest_position_size cfg tr rm now edge confidence = Inr (sz, rm')
           \<and> 0 \<le> sz \<and> sz \<le> get_balance cfg tr * max_position_pct cfg"
proof -
  from check_status_returns [OF assms(8)] obtain st rm'
    where cs: "check_status cfg tr rm now = Inr (st, rm')" and b: "balance st = get_balance cfg tr"
    by blast
  have mp: "0 \<le> max_position cfg (get_balance cfg tr)"
    using assms(1,7) by (simp add: max_position_def)
  show ?thesis
    using cs b mp assms(6)
    by (auto simp add: suggest_position_size_def Let_def max_position_def)
qed

theorem suggest_position_size_bounds_witness:
  "0 \<le> get_balance default_config scenario_trader \<and> (0::real) \<le> 0.4 \<and> (0.4::real) \<le> 1
   \<and> (0::real) \<le> 0.8 \<and> (0.8::real) \<le> 1 \<and> 0 < stop_loss_pct default_config
   \<and> 0 \<le> max_position_pct default_config \<and> starting_capital default_config \<noteq> 0
   \<and> (\<exists>sz rm'. suggest_position_size default_config scenario_trader init_RiskManager 0 0.4 0.8 = Inr (sz, rm')
         \<and> 0 \<le> sz \<and> sz \<le> 3000)"
proof -
  have h: "0 \<le> get_balance default_config scenario_trader" "(0::real) \<le> 0.4" "(0.4::real) \<le> 1"
    "(0::real) \<le> 0.8" "(0.8::real) \<le> 1" "0 < stop_loss_pct default_config"
    "0 \<le> max_position_pct default_config" "starting_capital default_config \<noteq> 0"
    by (simp_all add: get_balance_def default_config_def scenario_trader_def)
  have "get_balance default_config scenario_trader * max_position_pct default_config = 3000"
    by (simp add: get_balance_def default_config_def scenario_trader_def)
  with suggest_position_size_bounds [where rm = init_RiskManager and now = 0, OF h] h show ?thesis by simp
qed

text \<open>
  C6, as stated: the multiplier is \<open>clamp(0.8 + edge, 0.8, 1.2)\<close> for every edge. The source
  takes \<open>min(1.2, 0.8 + edge)\<close> and has no lower clamp: at edge \<open>-0.5\<close> the multiplier is
  0.3.
\<close>

theorem edge_multiplier_below_clamp_range:
  "edge_multiplier (- 0.5) = 0.3 \<and> edge_multiplier (- 0.5) < 0.8
   \<and> edge_multiplier (- 0.5) \<noteq> spec_edge_mult (- 0.5)"
  by (simp add: edge_multiplier_def spec_edge_mult_def clamp_def)

text \<open>
  C6, amended. The multiplier is \<open>min(1.2, 0.8 + edge)\<close>: at most 1.2 for every edge; equal
  to the clamp of the specification, hence at least 0.8, when the edge is not negative;
  and \<open>0.8 + edge\<close>, below 0.8, when the edge is negative. In \<open>evaluate_opportunity\<close> the
  sizing is behind the minimum-edge gate: an approved decision has an edge of at least
  \<open>min_edge_to_trade\<close>, and its size is the capped product with this multiplier.
\<close>

theorem edge_multiplier_range:
  "edge_multiplier edge \<le> 1.2
   \<and> (0 \<le> edge \<longrightarrow> 0.8 \<le> edge_multiplier edge \<and> edge_multiplier edge = spec_edge_mult edge)
   \<and> (edge < 0 \<longrightarrow> edge_multiplier edge = 0.8 + edge \<and> edge_multiplier edge < 0.8)
   \<and> (evaluate_opportunity cfg tr ex now ev mt = Inr d \<and> approved d \<longrightarrow>
         min_edge_to_trade cfg \<le> m_edge mt
         \<and> size_usd d = min (base_size cfg (get_balance cfg tr) * edge_multiplier (m_edge mt)
                               * m_confidence mt)
                            (max_position cfg (get_balance cfg tr)))"
proof -
  have a: "edge_multiplier edge \<le> 1.2
   \<and> (0 \<le> edge \<longrightarrow> 0.8 \<le> edge_multiplier edge \<and> edge_multiplier edge = spec_edge_mult edge)
   \<and> (edge < 0 \<longrightarrow> edge_multiplier edge = 0.8 + edge \<and> edge_multiplier edge < 0.8)"
    by (auto simp add: edge_multiplier_def spec_edge_mult_def clamp_def min_def max_def)
  have b: "evaluate_opportunity cfg tr ex now ev mt = Inr d \<and> approved d \<longrightarrow>
         min_edge_to_trade cfg \<le> m_edge mt
         \<and> size_usd d = min (base_size cfg (get_balance cfg tr) * edge_multiplier (m_edge mt)
                               * m_confidence mt)
                            (max_position cfg (get_balance cfg tr))"
  proof (intro impI, elim conjE)
    assume e: "evaluate_opportunity cfg tr ex now ev mt = Inr d" and ap: "approved d"
    have "\<not> m_edge mt < min_edge_to_trade cfg"
      using evaluate_opportunity_low_edge [of mt cfg tr ex now ev] e ap by auto
    then show "min_edge_to_trade cfg \<le> m_edge mt
         \<and> size_usd d = min (base_size cfg (get_balance cfg tr) * edge_multiplier (m_edge mt)
                               * m_confidence mt)
                            (max_position cfg (get_balance cfg tr))"
      using evaluate_opportunity_size [OF e ap] by (simp add: suggested_raw_def)
  qed
  show ?thesis using a b by blast
qed

theorem edge_multiplier_range_witness:
  "(0::real) \<le> 0.4 \<and> edge_multiplier 0.4 = 1.2 \<and> spec_edge_mult 0.4 = 1.2
   \<and> (- 0.1 :: real) < 0 \<and> edge_multiplier (- 0.1) = 0.7
   \<and> evaluate_opportunity default_config scenario_trader scenario_executor 0 () scenario_match
        = Inr (scenario_decision\<lparr> executed := False, d_result := None \<rparr>)
   \<and> approved (scenario_decision\<lparr> executed := False, d_result := None \<rparr>)
   \<and> min_edge_to_trade default_config \<le> m_edge scenario_match
   \<and> size_usd (scenario_decision\<lparr> executed := False, d_result := None \<rparr>) = 3000"
proof -
  have ap: "approved (scenario_decision\<lparr> executed := False, d_result := None \<rparr>)"
    "size_usd (scenario_decision\<lparr> executed := False, d_result := None \<rparr>) = 3000"
    by (simp_all add: scenario_decision_def)
  have v: "edge_multiplier 0.4 = 1.2" "spec_edge_mult 0.4 = 1.2" "edge_multiplier (- 0.1) = 0.7"
    using edge_multiplier_range [of "0.4"] edge_multiplier_range [of "- 0.1"]
    by (simp_all add: edge_multiplier_def spec_edge_mult_def clamp_def)
  have g: "min_edge_to_trade default_config \<le> m_edge scenario_match"
    using edge_multiplier_range [where cfg = default_config and tr = scenario_trader
            and ex = scenario_executor and now = 0 and ev = "()" and mt = scenario_match
            and d = "scenario_decision\<lparr> executed := False, d_result := None \<rparr>"]
          scenario_evaluate ap(1)
    by blast
  show ?thesis using v g ap scenario_evaluate by simp
qed

text \<open>
  C8. Equity 10000 under the default configuration, edge 0.4, confidence 0.8: risk amount
  500, base size \<open>10000 / 3\<close> (3333.33 to the cent), multiplier 1.2, raw size 3200, cap 3000,
  and the suggested size is 3000 whatever the other attributes of the trader and the risk
  manager are.
\<close>

theorem sizing_scenario:
  "sizing_risk_amount default_config 10000 = 500
   \<and> base_size default_config 10000 = 10000 / 3
   \<and> \<bar>base_size default_config 10000 - 3333.33\<bar> < 0.005
   \<and> edge_multiplier 0.4 = 1.2
   \<and> suggested_raw default_config 10000 0.4 0.8 = 3200
   \<and> max_position default_config 10000 = 3000
   \<and> (\<exists>rm'. suggest_position_size default_config (tr\<lparr> paper_balance := 10000 \<rparr>) rm now
                 0.4 0.8 = Inr (3000, rm'))"
proof -
  have sc: "starting_capital default_config \<noteq> 0" by (simp add: default_config_def)
  from check_status_returns [OF sc] obtain st rm'
    where cs: "check_status default_config (tr\<lparr> paper_balance := 10000 \<rparr>) rm now = Inr (st, rm')"
      and b: "balance st = get_balance default_config (tr\<lparr> paper_balance := 10000 \<rparr>)"
    by blast
  have b': "balance st = 10000"
    using b by (simp add: get_balance_def default_config_def)
  have v: "sizing_risk_amount default_config 10000 = 500"
    "base_size default_config 10000 = 10000 / 3"
    "edge_multiplier 0.4 = 1.2"
    "suggested_raw default_config 10000 0.4 0.8 = 3200"
    "max_position default_config 10000 = 3000"
    by (simp_all add: sizing_risk_amount_def base_size_def edge_multiplier_def
          suggested_raw_def max_position_def default_config_def)
  have a: "\<bar>base_size default_config 10000 - 3333.33\<bar> < 0.005"
    by (simp add: v(2))
  have s: "suggest_position_size default_config (tr\<lparr> paper_balance := 10000 \<rparr>) rm now 0.4 0.8
             = Inr (3000, rm')"
  proof -
    have slp: "stop_loss_pct default_config \<noteq> 0" by (simp add: default_config_def)
    show ?thesis
      using v(4,5) slp by (simp add: suggest_position_size_def cs b' Let_def)
  qed
  show ?thesis using v a s by blast
qed

section \<open>The pause after the daily loss limit\<close>

text \<open>
  C2. A check that reaches the daily-loss test (the manager is not paused, or its pause has
  expired) and sees \<open>daily_pnl \<le> -(equity * max_daily_loss_pct)\<close> disallows trading and arms
  the pause for four hours. From then on, whatever the trader's balance and daily P&L are,
  every check up to the expiry returns the stored reason and \<open>can_trade\<close> returns false, for
  one call and for any sequence of calls, and the manager is unchanged; after the expiry
  the check clears the pause and goes on to the limit checks.
\<close>

theorem daily_loss_pause_sticky:
  assumes "starting_capital cfg \<noteq> 0"
    and "\<not> trading_paused rm \<or> (\<exists>u. pause_until rm = Some u \<and> u < tobs)"
    and "get_daily_pnl tr \<le> - (get_balance cfg tr * max_daily_loss_pct cfg)"
  shows "\<exists>st rm1. check_status cfg tr rm tobs = Inr (st, rm1) \<and> \<not> is_trading_allowed st
           \<and> trading_paused rm1 \<and> pause_reason rm1 = reason st
           \<and> pause_until rm1 = Some (tobs + timedelta_hours 4)
           \<and> (\<forall>tr' t. t \<le> tobs + timedelta_hours 4 \<longrightarrow>
                 can_trade cfg tr' rm1 t = Inr (False, rm1)
                 \<and> check_status cfg tr' rm1 t
                    = Inr ((initial_status cfg tr')
                             \<lparr> is_trading_allowed := False, reason := pause_reason rm1 \<rparr>, rm1))
           \<and> (\<forall>calls. (\<forall>(tr', t) \<in> set calls. t \<le> tobs + timedelta_hours 4) \<longrightarrow>
                 can_trade_calls cfg rm1 calls = Inr (replicate (length calls) False, rm1))
           \<and> (\<forall>tr' t. tobs + timedelta_hours 4 < t \<longrightarrow>
                 check_status cfg tr' rm1 t
                  = Inr (limit_checks cfg (initial_status cfg tr')
                           (rm1\<lparr> trading_paused := False, pause_reason := NoReason \<rparr>) t))"
proof -
  from loss_observed [OF assms] obtain st rm1 where
    cs: "check_status cfg tr rm tobs = Inr (st, rm1)" and na: "\<not> is_trading_allowed st"
    and p: "trading_paused rm1" and r: "pause_reason rm1 = reason st"
    and u: "pause_until rm1 = Some (tobs + timedelta_hours 4)"
    by blast
  have a: "\<forall>tr' t. t \<le> tobs + timedelta_hours 4 \<longrightarrow>
                 can_trade cfg tr' rm1 t = Inr (False, rm1)
                 \<and> check_status cfg tr' rm1 t
                    = Inr ((initial_status cfg tr')
                             \<lparr> is_trading_allowed := False, reason := pause_reason rm1 \<rparr>, rm1)"
    using paused_check [OF assms(1) p u] by (simp add: can_trade_def)
  have b: "\<forall>calls. (\<forall>(tr', t) \<in> set calls. t \<le> tobs + timedelta_hours 4) \<longrightarrow>
                 can_trade_calls cfg rm1 calls = Inr (replicate (length calls) False, rm1)"
    using paused_can_trade_calls [OF assms(1) p u] by blast
  have c: "\<forall>tr' t. tobs + timedelta_hours 4 < t \<longrightarrow>
                 check_status cfg tr' rm1 t
                  = Inr (limit_checks cfg (initial_status cfg tr')
                           (rm1\<lparr> trading_paused := False, pause_reason := NoReason \<rparr>) t)"
    using expired_check [OF assms(1) p u] by blast
  show ?thesis using cs na p r u a b c by blast
qed

theorem daily_loss_pause_sticky_witness:
  "starting_capital default_config \<noteq> 0 \<and> \<not> trading_paused init_RiskManager
   \<and> get_daily_pnl losing_trader
        \<le> - (get_balance default_config losing_trader * max_daily_loss_pct default_config)
   \<and> (\<exists>rm1. can_trade default_config losing_trader init_RiskManager 0 = Inr (False, rm1)
         \<and> pause_until rm1 = Some 14400000000
         \<and> can_trade default_config scenario_trader rm1 14400000000 = Inr (False, rm1)
         \<and> can_trade_calls default_config rm1 [(scenario_trader, 1), (scenario_trader, 14400000000)] = Inr ([False, False], rm1)
         \<and> can_trade default_config scenario_trader rm1 14400000001
             = Inr (True, rm1\<lparr> trading_paused := False, pause_reason := NoReason \<rparr>))"
proof -
  have h1: "starting_capital default_config \<noteq> 0" by (simp add: default_config_def)
  have h2: "\<not> trading_paused init_RiskManager \<or> (\<exists>u. pause_until init_RiskManager = Some u \<and> u < 0)"
    by (simp add: init_RiskManager_def)
  have h3: "get_daily_pnl losing_trader
        \<le> - (get_balance default_config losing_trader * max_daily_loss_pct default_config)"
    by (simp add: get_daily_pnl_def get_balance_def losing_trader_def scenario_trader_def default_config_def)
  from daily_loss_pause_sticky [where tobs = 0, OF h1 h2 h3] obtain st rm1 where
    cs: "check_status default_config losing_trader init_RiskManager 0 = Inr (st, rm1)"
    and na: "\<not> is_trading_allowed st"
    and u: "pause_until rm1 = Some (0 + timedelta_hours 4)"
    and a: "\<forall>tr' t. t \<le> 0 + timedelta_hours 4 \<longrightarrow> can_trade default_config tr' rm1 t = Inr (False, rm1)"
    and b: "\<forall>calls. (\<forall>(tr', t) \<in> set calls. t \<le> 0 + timedelta_hours 4) \<longrightarrow>
                 can_trade_calls default_config rm1 calls = Inr (replicate (length calls) False, rm1)"
    and c: "\<forall>tr' t. 0 + timedelta_hours 4 < t \<longrightarrow>
                 check_status default_config tr' rm1 t
                  = Inr (limit_checks default_config (initial_status default_config tr')
                           (rm1\<lparr> trading_paused := False, pause_reason := NoReason \<rparr>) t)"
    by blast
  have td: "timedelta_hours 4 = 14400000000" by (simp add: timedelta_hours_def)
  have 1: "can_trade default_config losing_trader init_RiskManager 0 = Inr (False, rm1)"
    using cs na by (simp add: can_trade_def)
  have 2: "pause_until rm1 = Some 14400000000" using u td by simp
  have 3: "can_trade default_config scenario_trader rm1 14400000000 = Inr (False, rm1)"
    using a td by simp
  have 4: "can_trade_calls default_config rm1 [(scenario_trader, 1), (scenario_trader, 14400000000)] = Inr ([False, False], rm1)"
  proof -
    have "\<forall>(tr', t) \<in> set [(scenario_trader, 1), (scenario_trader, 14400000000)].
            t \<le> 0 + timedelta_hours 4"
      by (simp add: td)
    with b have "can_trade_calls default_config rm1 [(scenario_trader, 1), (scenario_trader, 14400000000)]
          = Inr (replicate (length [(scenario_trader, 1::int), (scenario_trader, 14400000000)]) False, rm1)"
      by blast
    then show ?thesis by (simp add: numeral_2_eq_2)
  qed
  have "check_status default_config scenario_trader rm1 14400000001
         = Inr (limit_checks default_config (initial_status default_config scenario_trader)
                           (rm1\<lparr> trading_paused := False, pause_reason := NoReason \<rparr>) 14400000001)"
    using c td by simp
  then have 5: "can_trade default_config scenario_trader rm1 14400000001
             = Inr (True, rm1\<lparr> trading_paused := False, pause_reason := NoReason \<rparr>)"
    by (simp add: can_trade_def limit_checks_def initial_status_def scenario_trader_def default_config_def
         get_balance_def get_daily_pnl_def get_positions_def Let_def)
  show ?thesis using h1 h2 h3 1 2 3 4 5 by (simp add: init_RiskManager_def)
qed

section \<open>The cooldown of a traded market\<close>

text \<open>
  C3, as stated: after a trade on token \<open>T\<close> is recorded at time \<open>t\<close>, an evaluation for \<open>T\<close>
  before \<open>t + 4h\<close> is rejected with the cooldown reason. \<open>execute_trade\<close> records the trade
  when it opens the position, and \<open>evaluate_opportunity\<close> tests for an open position on the
  token before it looks at the cooldown. In the scenario the opportunity is processed at
  time 0; one hour later the evaluation is rejected because the position is open, not for
  the cooldown.
\<close>

theorem cooldown_counterexample:
  "process_opportunity default_config scenario_trader scenario_db scenario_executor 0 None ()
       scenario_match
     = Inr (scenario_decision, scenario_trader_open, scenario_db_open, scenario_executor_open)
   \<and> traded_markets scenario_executor_open ''T'' = Some 0
   \<and> (3600000000 :: int) < 0 + timedelta_hours MARKET_COOLDOWN_HOURS
   \<and> evaluate_opportunity default_config scenario_trader_open scenario_executor_open
         3600000000 () scenario_match
       = Inr \<lparr> d_event = (), d_match = scenario_match, size_usd = 0, size_shares = 0,
               d_risk_amount = 0, approved = False, d_reason = AlreadyHaveOpenPosition,
               executed = False, d_result = None \<rparr>
   \<and> AlreadyHaveOpenPosition \<noteq> MarketOnCooldown 3"
  by (simp add: scenario_process)
     (simp add: evaluate_opportunity_def scenario_executor_open_eq scenario_trader_open_def
       get_positions_def default_config_def scenario_match_def scenario_position_def Let_def)

text \<open>
  C3, amended. Let \<open>execute_trade\<close> succeed on the token \<open>T\<close> at time \<open>t\<close>. For as long as that
  executor runs and executes no later trade on \<open>T\<close> (any calls on other tokens may follow),
  its entry for \<open>T\<close> is \<open>t\<close>: an evaluation for \<open>T\<close> strictly before \<open>t + 4h\<close> returns an
  unapproved decision, with the open-position reason when the trader has an open position
  on \<open>T\<close> and the cooldown reason, with the hours that remain, when it has none; at or after
  \<open>t + 4h\<close> no decision carries the cooldown reason.

  The entry lives in memory only. An executor that is started on a database \<open>db0\<close> at time
  \<open>now0\<close> takes its entries from the 100 most recent closed trades: an entry \<open>t0\<close> for \<open>T\<close> is
  the latest exit time of \<open>T\<close> among them, less than four hours before \<open>now0\<close>, and is enforced
  like the one above; a closed trade on \<open>T\<close> among them, with a non-empty token and an exit
  time less than four hours before \<open>now0\<close>, gives an entry no earlier than its exit time; a
  token with no closed trade has no entry, and no decision of the started executor carries
  the cooldown reason for it. So a restart while the position on \<open>T\<close> is still open forgets
  the trade recorded at \<open>t\<close>.
\<close>

theorem cooldown_enforced:
  fixes ev :: 'e
  assumes "execute_trade cfg tr db ex t live decision = (True, decision1, tr1, db1, ex1)"
    and "m_recommended_token mt = m_recommended_token (d_match decision)"
    and "\<forall>(tr', db', now', live', d') \<in> set calls.
           m_recommended_token (d_match d') \<noteq> m_recommended_token mt"
  shows "traded_markets (executor_after cfg ex1 calls) (m_recommended_token mt) = Some t
         \<and> (now < t + timedelta_hours MARKET_COOLDOWN_HOURS \<longrightarrow>
              (\<exists>d. evaluate_opportunity cfg tr2 (executor_after cfg ex1 calls) now ev mt = Inr d
                 \<and> \<not> approved d
                 \<and> d_reason d =
                     (if \<exists>pos \<in> set (get_positions cfg tr2). token_id pos = m_recommended_token mt
                      then AlreadyHaveOpenPosition
                      else MarketOnCooldown
                             (total_seconds (t + timedelta_hours MARKET_COOLDOWN_HOURS - now)
                                / 3600))))
         \<and> (t + timedelta_hours MARKET_COOLDOWN_HOURS \<le> now \<longrightarrow>
              (\<forall>d h. evaluate_opportunity cfg tr2 (executor_after cfg ex1 calls) now ev mt = Inr d
                      \<longrightarrow> d_reason d \<noteq> MarketOnCooldown h))
         \<and> (\<forall>(db0::Database) now0 t0.
               traded_markets (init_TradeExecutor db0 now0 :: 'e TradeExecutor)
                 (m_recommended_token mt) = Some t0 \<longrightarrow>
               now0 < t0 + timedelta_hours MARKET_COOLDOWN_HOURS
               \<and> (\<exists>row \<in> set (get_closed_trades db0 100).
                      ct_token_id row = m_recommended_token mt \<and> ct_exit_time row = t0)
               \<and> (\<forall>row \<in> set (get_closed_trades db0 100).
                      ct_token_id row = m_recommended_token mt \<longrightarrow> ct_exit_time row \<le> t0)
               \<and> (now < t0 + timedelta_hours MARKET_COOLDOWN_HOURS \<longrightarrow>
                    (\<exists>d. evaluate_opportunity cfg tr2
                            (executor_after cfg (init_TradeExecutor db0 now0) calls) now ev mt
                          = Inr d
                       \<and> \<not> approved d
                       \<and> d_reason d =
                           (if \<exists>pos \<in> set (get_positions cfg tr2).
                                  token_id pos = m_recommended_token mt
                            then AlreadyHaveOpenPosition
                            else MarketOnCooldown
                                   (total_seconds
                                      (t0 + timedelta_hours MARKET_COOLDOWN_HOURS - now)
                                      / 3600)))))
         \<and> (\<forall>(db0::Database) now0 row.
               row \<in> set (get_closed_trades db0 100)
               \<and> ct_token_id row = m_recommended_token mt \<and> m_recommended_token mt \<noteq> []
               \<and> now0 < ct_exit_time row + timedelta_hours MARKET_COOLDOWN_HOURS \<longrightarrow>
               (\<exists>t0. traded_markets (init_TradeExecutor db0 now0 :: 'e TradeExecutor)
                        (m_recommended_token mt) = Some t0
                     \<and> ct_exit_time row \<le> t0))
         \<and> (\<forall>(db0::Database) now0.
               (\<forall>row \<in> set (closed_trades_table db0).
                  ct_token_id row \<noteq> m_recommended_token mt) \<longrightarrow>
               traded_markets (init_TradeExecutor db0 now0 :: 'e TradeExecutor)
                 (m_recommended_token mt) = None
               \<and> (\<forall>d h. evaluate_opportunity cfg tr2 (init_TradeExecutor db0 now0) now ev mt
                            = Inr d
                          \<longrightarrow> d_reason d \<noteq> MarketOnCooldown h))"
proof -
  let ?T = "m_recommended_token mt"
  have r: "traded_markets ex1 ?T = Some t"
    using execute_trade_records [OF assms(1)] assms(2) by simp
  have e: "traded_markets (executor_after cfg ex1 calls) ?T = Some t"
    using executor_after_other_tokens [OF assms(3), of cfg ex1] r by simp
  note c = cooldown_check [OF e, of now cfg tr2 ev]
  have restored: "\<forall>(db0::Database) now0 t0.
               traded_markets (init_TradeExecutor db0 now0 :: 'e TradeExecutor) ?T = Some t0 \<longrightarrow>
               now0 < t0 + timedelta_hours MARKET_COOLDOWN_HOURS
               \<and> (\<exists>row \<in> set (get_closed_trades db0 100).
                      ct_token_id row = ?T \<and> ct_exit_time row = t0)
               \<and> (\<forall>row \<in> set (get_closed_trades db0 100).
                      ct_token_id row = ?T \<longrightarrow> ct_exit_time row \<le> t0)
               \<and> (now < t0 + timedelta_hours MARKET_COOLDOWN_HOURS \<longrightarrow>
                    (\<exists>d. evaluate_opportunity cfg tr2
                            (executor_after cfg (init_TradeExecutor db0 now0) calls) now ev mt
                          = Inr d
                       \<and> \<not> approved d
                       \<and> d_reason d =
                           (if \<exists>pos \<in> set (get_positions cfg tr2). token_id pos = ?T
                            then AlreadyHaveOpenPosition
                            else MarketOnCooldown
                                   (total_seconds
                                      (t0 + timedelta_hours MARKET_COOLDOWN_HOURS - now)
                                      / 3600))))"
  proof (intro allI impI)
    fix db0 :: Database and now0 t0
    assume i: "traded_markets (init_TradeExecutor db0 now0 :: 'e TradeExecutor) ?T = Some t0"
    then have l: "load_recent_trades_from_db db0 now0 ?T = Some t0"
      by (simp add: init_TradeExecutor_def)
    have e0: "traded_markets (executor_after cfg (init_TradeExecutor db0 now0 :: 'e TradeExecutor)
                                calls) ?T = Some t0"
      using executor_after_other_tokens [OF assms(3), of cfg "init_TradeExecutor db0 now0"] i
      by simp
    from load_recent_trades_within_window [OF l] load_recent_trades_latest [OF l]
      cooldown_check [OF e0, of now cfg tr2 ev]
    show "now0 < t0 + timedelta_hours MARKET_COOLDOWN_HOURS
               \<and> (\<exists>row \<in> set (get_closed_trades db0 100).
                      ct_token_id row = ?T \<and> ct_exit_time row = t0)
               \<and> (\<forall>row \<in> set (get_closed_trades db0 100).
                      ct_token_id row = ?T \<longrightarrow> ct_exit_time row \<le> t0)
               \<and> (now < t0 + timedelta_hours MARKET_COOLDOWN_HOURS \<longrightarrow>
                    (\<exists>d. evaluate_opportunity cfg tr2
                            (executor_after cfg (init_TradeExecutor db0 now0) calls) now ev mt
                          = Inr d
                       \<and> \<not> approved d
                       \<and> d_reason d =
                           (if \<exists>pos \<in> set (get_positions cfg tr2). token_id pos = ?T
                            then AlreadyHaveOpenPosition
                            else MarketOnCooldown
                                   (total_seconds
                                      (t0 + timedelta_hours MARKET_COOLDOWN_HOURS - now)
                                      / 3600))))"
      by blast
  qed
  have found: "\<forall>(db0::Database) now0 row.
               row \<in> set (get_closed_trades db0 100)
               \<and> ct_token_id row = ?T \<and> ?T \<noteq> []
               \<and> now0 < ct_exit_time row + timedelta_hours MARKET_COOLDOWN_HOURS \<longrightarrow>
               (\<exists>t0. traded_markets (init_TradeExecutor db0 now0 :: 'e TradeExecutor) ?T = Some t0
                     \<and> ct_exit_time row \<le> t0)"
  proof (intro allI impI, elim conjE)
    fix db0 :: Database and now0 row
    assume a: "row \<in> set (get_closed_trades db0 100)" "ct_token_id row = ?T" "?T \<noteq> []"
      "now0 < ct_exit_time row + timedelta_hours MARKET_COOLDOWN_HOURS"
    from a(2,3) have ne: "ct_token_id row \<noteq> []" by simp
    from load_recent_trades_records [OF a(1) ne a(4)] a(2)
    show "\<exists>t0. traded_markets (init_TradeExecutor db0 now0 :: 'e TradeExecutor) ?T = Some t0
                     \<and> ct_exit_time row \<le> t0"
      by (simp add: init_TradeExecutor_def)
  qed
  have none: "\<forall>(db0::Database) now0.
               (\<forall>row \<in> set (closed_trades_table db0). ct_token_id row \<noteq> ?T) \<longrightarrow>
               traded_markets (init_TradeExecutor db0 now0 :: 'e TradeExecutor) ?T = None
               \<and> (\<forall>d h. evaluate_opportunity cfg tr2 (init_TradeExecutor db0 now0) now ev mt
                            = Inr d
                          \<longrightarrow> d_reason d \<noteq> MarketOnCooldown h)"
  proof (intro allI impI)
    fix db0 :: Database and now0
    assume a: "\<forall>row \<in> set (closed_trades_table db0). ct_token_id row \<noteq> ?T"
    have n: "traded_markets (init_TradeExecutor db0 now0 :: 'e TradeExecutor) ?T = None"
      using load_recent_trades_none [OF a] by (simp add: init_TradeExecutor_def)
    from n no_entry_no_cooldown [OF n]
    show "traded_markets (init_TradeExecutor db0 now0 :: 'e TradeExecutor) ?T = None
               \<and> (\<forall>d h. evaluate_opportunity cfg tr2 (init_TradeExecutor db0 now0) now ev mt
                            = Inr d
                          \<longrightarrow> d_reason d \<noteq> MarketOnCooldown h)"
      by blast
  qed
  show ?thesis
    using e c restored found none by blast
qed

theorem cooldown_enforced_witness:
  "execute_trade default_config scenario_trader scenario_db scenario_executor 0 None
     (scenario_decision\<lparr> executed := False, d_result := None \<rparr>)
   = (True, scenario_decision, scenario_trader_open, scenario_db_open, scenario_executor_open)
   \<and> m_recommended_token scenario_match = ''T''
   \<and> m_recommended_token (d_match (snd (snd (snd (snd scenario_other_call))))) = ''N''
   \<and> traded_markets (executor_after default_config scenario_executor_open [scenario_other_call])
        ''T'' = Some 0
   \<and> (\<exists>d. evaluate_opportunity default_config scenario_trader_open
              (executor_after default_config scenario_executor_open [scenario_other_call])
              3600000000 () scenario_match = Inr d
          \<and> \<not> approved d \<and> d_reason d = AlreadyHaveOpenPosition)
   \<and> get_positions default_config scenario_trader_closed = []
   \<and> (\<exists>d. evaluate_opportunity default_config scenario_trader_closed
              (executor_after default_config scenario_executor_open [scenario_other_call])
              9000000000 () scenario_match = Inr d
          \<and> \<not> approved d \<and> d_reason d = MarketOnCooldown 1.5)
   \<and> (\<exists>d. evaluate_opportunity default_config scenario_trader_closed
              (executor_after default_config scenario_executor_open [scenario_other_call])
              14400000000 () scenario_match = Inr d
          \<and> approved d \<and> d_reason d \<noteq> MarketOnCooldown 0)
   \<and> closed_trades_table scenario_db_open = []
   \<and> traded_markets (init_TradeExecutor scenario_db_open 3600000000 :: unit TradeExecutor) ''T''
        = None
   \<and> (\<exists>d. evaluate_opportunity default_config scenario_trader_closed
              (init_TradeExecutor scenario_db_open 3600000000) 9000000000 () scenario_match
            = Inr d
          \<and> approved d \<and> d_reason d \<noteq> MarketOnCooldown 1.5)
   \<and> traded_markets (init_TradeExecutor scenario_db_closed 9000000000 :: unit TradeExecutor) ''T''
        = Some 7200000000
   \<and> (\<exists>d. evaluate_opportunity default_config scenario_trader_closed
              (executor_after default_config (init_TradeExecutor scenario_db_closed 9000000000)
                 [scenario_other_call])
              10800000000 () scenario_match = Inr d
          \<and> \<not> approved d \<and> d_reason d = MarketOnCooldown 3)"
proof -
  let ?ex1 = "executor_after default_config scenario_executor_open [scenario_other_call]"
  have mt: "m_recommended_token scenario_match = ''T''"
    by (simp add: scenario_match_def)
  have h2: "m_recommended_token scenario_match
              = m_recommended_token (d_match (scenario_decision\<lparr> executed := False,
                                                 d_result := None \<rparr>))"
    by (simp add: scenario_decision_def)
  have oc: "m_recommended_token (d_match (snd (snd (snd (snd scenario_other_call))))) = ''N''"
    by (simp add: scenario_other_call_def)
  have h3: "\<forall>(tr', db', now', live', d') \<in> set [scenario_other_call].
              m_recommended_token (d_match d') \<noteq> m_recommended_token scenario_match"
    by (simp add: scenario_other_call_def scenario_match_def)
  note th = cooldown_enforced [OF scenario_execute h2 h3]
  have np: "get_positions default_config scenario_trader_closed = []"
    by (simp add: get_positions_def scenario_closed_fields default_config_def)
  have op: "\<exists>pos \<in> set (get_positions default_config scenario_trader_open).
              token_id pos = m_recommended_token scenario_match"
    by (simp add: get_positions_def scenario_trader_open_def scenario_position_def
          scenario_match_def default_config_def)
  have 1: "traded_markets ?ex1 ''T'' = Some 0"
    using th [of 0 scenario_trader "()"] mt by simp
  have 2: "\<exists>d. evaluate_opportunity default_config scenario_trader_open ?ex1
              3600000000 () scenario_match = Inr d
          \<and> \<not> approved d \<and> d_reason d = AlreadyHaveOpenPosition"
    using th [of 3600000000 scenario_trader_open "()"] op by simp
  have hr: "total_seconds (0 + timedelta_hours MARKET_COOLDOWN_HOURS - 9000000000) / 3600 = 1.5"
    "total_seconds (7200000000 + timedelta_hours MARKET_COOLDOWN_HOURS - 10800000000) / 3600 = 3"
    by (simp_all add: total_seconds_def)
  have 3: "\<exists>d. evaluate_opportunity default_config scenario_trader_closed ?ex1
              9000000000 () scenario_match = Inr d
          \<and> \<not> approved d \<and> d_reason d = MarketOnCooldown 1.5"
    using th [of 9000000000 scenario_trader_closed "()"] np hr(1) by simp
  have 4: "\<exists>d. evaluate_opportunity default_config scenario_trader_closed ?ex1
              14400000000 () scenario_match = Inr d
          \<and> approved d \<and> d_reason d \<noteq> MarketOnCooldown 0"
  proof -
    from scenario_evaluate_after_cooldown [OF 1] obtain d where
      d: "evaluate_opportunity default_config scenario_trader_closed ?ex1 14400000000 ()
            scenario_match = Inr d" "approved d" by blast
    from th [of 14400000000 scenario_trader_closed "()"] d(1)
    have "d_reason d \<noteq> MarketOnCooldown 0" by simp
    with d show ?thesis by blast
  qed
  have e: "closed_trades_table scenario_db_open = []"
    by (simp add: scenario_db_open_def scenario_db_def)
  then have nr: "\<forall>row \<in> set (closed_trades_table scenario_db_open).
                   ct_token_id row \<noteq> m_recommended_token scenario_match"
    by simp
  have 5: "traded_markets (init_TradeExecutor scenario_db_open 3600000000 :: unit TradeExecutor)
             ''T'' = None"
    using th [of 9000000000 scenario_trader_closed "()"] nr mt by simp
  have 6: "\<exists>d. evaluate_opportunity default_config scenario_trader_closed
              (init_TradeExecutor scenario_db_open 3600000000) 9000000000 () scenario_match
            = Inr d
          \<and> approved d \<and> d_reason d \<noteq> MarketOnCooldown 1.5"
  proof -
    from scenario_evaluate_after_restart [OF 5] obtain d where
      d: "evaluate_opportunity default_config scenario_trader_closed
              (init_TradeExecutor scenario_db_open 3600000000) 9000000000 () scenario_match
            = Inr d" "approved d" by blast
    from th [of 9000000000 scenario_trader_closed "()"] nr d(1)
    have "d_reason d \<noteq> MarketOnCooldown 1.5" by blast
    with d show ?thesis by blast
  qed
  have tbl: "\<exists>row. closed_trades_table scenario_db_closed = [row] \<and> ct_token_id row = ''T''
               \<and> ct_exit_time row = 7200000000"
    using scenario_closed_fields(5,6) by (cases "closed_trades_table scenario_db_closed") auto
  then obtain row where row: "closed_trades_table scenario_db_closed = [row]"
    "ct_token_id row = ''T''" "ct_exit_time row = 7200000000" by blast
  have g: "row \<in> set (get_closed_trades scenario_db_closed 100)"
    by (simp add: get_closed_trades_def row(1))
  have w: "(9000000000 :: int) < ct_exit_time row + timedelta_hours MARKET_COOLDOWN_HOURS"
    by (simp add: row(3))
  note restored = th [of 10800000000 scenario_trader_closed "()",
                      THEN conjunct2, THEN conjunct2, THEN conjunct2, THEN conjunct1]
  note found = th [of 10800000000 scenario_trader_closed "()",
                   THEN conjunct2, THEN conjunct2, THEN conjunct2, THEN conjunct2,
                   THEN conjunct1]
  have prem: "row \<in> set (get_closed_trades scenario_db_closed 100)
              \<and> ct_token_id row = m_recommended_token scenario_match
              \<and> m_recommended_token scenario_match \<noteq> []
              \<and> 9000000000 < ct_exit_time row + timedelta_hours MARKET_COOLDOWN_HOURS"
    using g row(2) w mt by simp
  from found [rule_format, OF prem]
  obtain t0 where t0': "traded_markets (init_TradeExecutor scenario_db_closed 9000000000
                                          :: unit TradeExecutor)
                          (m_recommended_token scenario_match) = Some t0"
    by blast
  then have t0: "traded_markets (init_TradeExecutor scenario_db_closed 9000000000
                                          :: unit TradeExecutor) ''T'' = Some t0"
    by (simp only: mt)
  from restored [rule_format, OF t0']
  have "\<exists>r \<in> set (get_closed_trades scenario_db_closed 100).
          ct_token_id r = ''T'' \<and> ct_exit_time r = t0"
    using mt by simp
  with row have t0v: "t0 = 7200000000" by (simp add: get_closed_trades_def)
  have 7: "traded_markets (init_TradeExecutor scenario_db_closed 9000000000
                             :: unit TradeExecutor) ''T'' = Some 7200000000"
    using t0 t0v by simp
  have 8: "\<exists>d. evaluate_opportunity default_config scenario_trader_closed
              (executor_after default_config (init_TradeExecutor scenario_db_closed 9000000000)
                 [scenario_other_call])
              10800000000 () scenario_match = Inr d
          \<and> \<not> approved d \<and> d_reason d = MarketOnCooldown 3"
  proof -
    have s7: "traded_markets (init_TradeExecutor scenario_db_closed 9000000000
                                :: unit TradeExecutor)
                (m_recommended_token scenario_match) = Some 7200000000"
      using 7 by (simp only: mt)
    from restored [rule_format, OF s7] np hr(2) show ?thesis by simp
  qed
  show ?thesis
    by (intro conjI) (rule scenario_execute mt oc 1 2 np 3 4 e 5 6 7 8)+
qed

section \<open>The limit monitor\<close>

text \<open>
  C4. For a position with a non-zero entry price, whatever its side. The sweep in which
  the breakeven block fires leaves \<open>breakeven_triggered\<close> set and the stop at the entry
  price, or at the trailing level when the trailing stop is enabled and that level is
  strictly above the entry price. Once \<open>breakeven_triggered\<close> is set it stays set, a sweep
  leaves the stop where it was or replaces it by \<open>highest_price * (1 - trailing_stop_pct)\<close>
  when that is strictly greater, and over any sequence of sweeps the stop does not
  decrease.
\<close>

theorem breakeven_stop_never_decreases:
  assumes "price pos \<noteq> 0"
  shows "(\<not> breakeven_triggered pos \<and> position_pnl_pct pos c \<ge> breakeven_trigger_pct cfg \<longrightarrow>
            (\<exists>pos' u it. check_position cfg pos c = Inr (pos', u, it) \<and> breakeven_triggered pos'
               \<and> (stop_loss_price pos' = price pos
                   \<or> (use_trailing_stop cfg
                       \<and> stop_loss_price pos' = highest_price pos' * (1 - trailing_stop_pct cfg)
                       \<and> price pos < stop_loss_price pos'))))
         \<and> (breakeven_triggered pos \<longrightarrow>
              (\<exists>pos' u it. check_position cfg pos c = Inr (pos', u, it) \<and> breakeven_triggered pos'
                 \<and> stop_loss_price pos \<le> stop_loss_price pos'
                 \<and> (stop_loss_price pos' = stop_loss_price pos
                     \<or> (trailing_stop_active pos
                         \<and> stop_loss_price pos' = highest_price pos' * (1 - trailing_stop_pct cfg)
                         \<and> stop_loss_price pos < stop_loss_price pos'))))
         \<and> (breakeven_triggered pos \<longrightarrow>
              (\<exists>pos' it. monitor_path cfg pos cs = Inr (pos', it) \<and> breakeven_triggered pos'
                 \<and> stop_loss_price pos \<le> stop_loss_price pos'))"
proof -
  from check_position_returns [OF assms] obtain pos1 u it1
    where cp: "check_position cfg pos c = Inr (pos1, u, it1)" by blast
  have a: "\<not> breakeven_triggered pos \<and> position_pnl_pct pos c \<ge> breakeven_trigger_pct cfg \<longrightarrow>
            (\<exists>pos' u it. check_position cfg pos c = Inr (pos', u, it) \<and> breakeven_triggered pos'
               \<and> (stop_loss_price pos' = price pos
                   \<or> (use_trailing_stop cfg
                       \<and> stop_loss_price pos' = highest_price pos' * (1 - trailing_stop_pct cfg)
                       \<and> price pos < stop_loss_price pos')))"
    using check_position_transition_step [OF cp] cp by simp
  have b: "breakeven_triggered pos \<longrightarrow>
              (\<exists>pos' u it. check_position cfg pos c = Inr (pos', u, it) \<and> breakeven_triggered pos'
                 \<and> stop_loss_price pos \<le> stop_loss_price pos'
                 \<and> (stop_loss_price pos' = stop_loss_price pos
                     \<or> (trailing_stop_active pos
                         \<and> stop_loss_price pos' = highest_price pos' * (1 - trailing_stop_pct cfg)
                         \<and> stop_loss_price pos < stop_loss_price pos')))"
    using check_position_triggered_step [OF cp] cp by simp
  have c: "breakeven_triggered pos \<longrightarrow>
              (\<exists>pos' it. monitor_path cfg pos cs = Inr (pos', it) \<and> breakeven_triggered pos'
                 \<and> stop_loss_price pos \<le> stop_loss_price pos')"
    using monitor_path_triggered [OF _ assms] by blast
  show ?thesis using a b c by blast
qed

theorem breakeven_stop_never_decreases_witness:
  "price scenario_position \<noteq> 0 \<and> \<not> breakeven_triggered scenario_position
   \<and> position_pnl_pct scenario_position 0.6 \<ge> breakeven_trigger_pct default_config
   \<and> (\<exists>pos' u it. check_position default_config scenario_position 0.6 = Inr (pos', u, it)
          \<and> breakeven_triggered pos'
          \<and> (stop_loss_price pos' = price scenario_position
              \<or> (use_trailing_stop default_config
                  \<and> stop_loss_price pos' = highest_price pos' * (1 - trailing_stop_pct default_config)
                  \<and> price scenario_position < stop_loss_price pos')))
   \<and> price scenario_trailing \<noteq> 0 \<and> breakeven_triggered scenario_trailing
   \<and> stop_loss_price scenario_trailing = 0.54
   \<and> (\<exists>pos' it. monitor_path default_config scenario_trailing [0.62, 0.6, 0.58] = Inr (pos', it)
          \<and> breakeven_triggered pos' \<and> 0.54 \<le> stop_loss_price pos')"
proof -
  have h1: "price scenario_position \<noteq> 0" "\<not> breakeven_triggered scenario_position"
    "position_pnl_pct scenario_position 0.6 \<ge> breakeven_trigger_pct default_config"
    by (simp_all add: scenario_position_def position_pnl_pct_def default_config_def)
  have h2: "price scenario_trailing \<noteq> 0" "breakeven_triggered scenario_trailing"
    "stop_loss_price scenario_trailing = 0.54"
    by (simp_all add: scenario_trailing_def scenario_position_def)
  note a = breakeven_stop_never_decreases [OF h1(1), where cfg = default_config and c = "0.6"]
  note b = breakeven_stop_never_decreases [OF h2(1), where cfg = default_config
             and cs = "[0.62, 0.6, 0.58]"]
  have 1: "\<exists>pos' u it. check_position default_config scenario_position 0.6 = Inr (pos', u, it)
          \<and> breakeven_triggered pos'
          \<and> (stop_loss_price pos' = price scenario_position
              \<or> (use_trailing_stop default_config
                  \<and> stop_loss_price pos' = highest_price pos' * (1 - trailing_stop_pct default_config)
                  \<and> price scenario_position < stop_loss_price pos'))"
    using a h1(2,3) by blast
  have 2: "\<exists>pos' it. monitor_path default_config scenario_trailing [0.62, 0.6, 0.58] = Inr (pos', it)
          \<and> breakeven_triggered pos' \<and> 0.54 \<le> stop_loss_price pos'"
  proof -
    from b h2(2) obtain pos' it
      where m: "monitor_path default_config scenario_trailing [0.62, 0.6, 0.58] = Inr (pos', it)"
        and t: "breakeven_triggered pos'"
        and s: "stop_loss_price scenario_trailing \<le> stop_loss_price pos'"
      by blast
    from s have "0.54 \<le> stop_loss_price pos'" by (simp only: h2(3))
    with m t show ?thesis by blast
  qed
  show ?thesis
    by (intro conjI) (rule h1 h2 1 2)+
qed

text \<open>
  C5. In one sweep of one position the stop-loss block runs first and the take-profit
  block second, on its result. When the price is at or above the take-profit level the
  entry to close has reason \<open>TAKE_PROFIT\<close> and the take-profit level as its price, also when
  the stop condition holds in the same sweep. Below the take-profit level, a stop that is
  hit gives the stop level as the price, and no entry is made when neither is hit. The
  price of every entry is one of the two levels, never the observed price unless it
  equals one.

  The close receives that price and that reason. \<open>close_items\<close> on the entry returns one
  result with the position, the entry's price as exit price and the entry's reason; it
  appends to the trader's closed trades, and saves in the database, a trade with that
  price, that reason and the profit computed from that price, and adds the profit to the
  daily and the total profit; in paper mode it credits the balance with size times that
  price, removes the position from the open list and deletes its row. For a paper trader
  that holds the position alone, \<open>close_positions_at_limit\<close> with a draw that gives the
  price \<open>c\<close> does all of this and leaves no open position; when the sweep gives no entry it
  closes nothing and leaves the swept position in the list.
\<close>

theorem take_profit_after_stop_loss:
  assumes "check_position cfg pos c = Inr (pos', u, it)"
  shows "(take_profit_price pos' \<le> c \<longrightarrow>
            it = Some \<lparr> ci_position = pos', ci_current_price = take_profit_price pos',
                        ci_reason = ''TAKE_PROFIT'', ci_pnl_pct = position_pnl_pct pos c \<rparr>)
         \<and> (c < take_profit_price pos' \<and> 0 < stop_loss_price pos' \<and> c \<le> stop_loss_price pos' \<longrightarrow>
              it = Some \<lparr> ci_position = pos', ci_current_price = stop_loss_price pos',
                          ci_reason = (if trailing_stop_active pos' then ''TRAILING_STOP''
                                       else if breakeven_triggered pos' then ''BREAKEVEN_STOP''
                                       else ''STOP_LOSS''),
                          ci_pnl_pct = position_pnl_pct pos c \<rparr>)
         \<and> (c < take_profit_price pos' \<and> \<not> (0 < stop_loss_price pos' \<and> c \<le> stop_loss_price pos') \<longrightarrow>
              it = None)
         \<and> (\<forall>item. it = Some item \<longrightarrow>
               (ci_reason item, ci_current_price item)
                 = (case take_profit_check pos' c (stop_loss_check pos' c) of (r, e) \<Rightarrow> (the r, e))
               \<and> ci_position item = pos'
               \<and> (ci_current_price item = stop_loss_price pos'
                   \<or> ci_current_price item = take_profit_price pos')
               \<and> (\<forall>tr db now. \<exists>res tr' db' ct.
                     close_items cfg tr db now [item] = ([res], tr', db')
                     \<and> cr_position res = pos' \<and> cr_exit_price res = ci_current_price item
                     \<and> cr_close_reason res = Some (ci_reason item)
                     \<and> cr_pnl res = (if upper (side pos) = ''BUY''
                                     then (ci_current_price item - price pos) * psize pos
                                     else (price pos - ci_current_price item) * psize pos)
                     \<and> closed_trades tr' = closed_trades tr @ [ct]
                     \<and> ct_id ct = ident pos \<and> ct_exit_price ct = ci_current_price item
                     \<and> ct_close_reason ct = ci_reason item \<and> ct_pnl ct = cr_pnl res
                     \<and> closed_trades_table db'
                         = filter (\<lambda>row. ct_id row \<noteq> ident pos) (closed_trades_table db)
                             @ [ct\<lparr> ct_prediction := None \<rparr>]
                     \<and> trader_daily_pnl tr' = trader_daily_pnl tr + cr_pnl res
                     \<and> trader_total_pnl tr' = trader_total_pnl tr + cr_pnl res
                     \<and> (paper_trading cfg \<longrightarrow>
                           paper_balance tr' = paper_balance tr + psize pos * ci_current_price item
                           \<and> paper_positions tr' = remove1 pos' (paper_positions tr)
                           \<and> open_positions_table db'
                               = filter (\<lambda>row. r_id row \<noteq> ident pos) (open_positions_table db)))
               \<and> (\<forall>tr db now rnd.
                     paper_trading cfg \<and> paper_positions tr = [pos]
                     \<and> simulated_price (price pos) (rnd 0) = c \<longrightarrow>
                     (\<exists>res tr' db' ct.
                        close_positions_at_limit cfg tr db now rnd = (Inr [res], tr', db')
                        \<and> cr_position res = pos' \<and> cr_exit_price res = ci_current_price item
                        \<and> cr_close_reason res = Some (ci_reason item)
                        \<and> paper_positions tr' = []
                        \<and> closed_trades tr' = closed_trades tr @ [ct]
                        \<and> ct_id ct = ident pos \<and> ct_exit_price ct = ci_current_price item
                        \<and> ct_close_reason ct = ci_reason item
                        \<and> paper_balance tr' = paper_balance tr + psize pos * ci_current_price item
                        \<and> (\<forall>row \<in> set (open_positions_table db'). r_id row \<noteq> ident pos)
                        \<and> ct\<lparr> ct_prediction := None \<rparr> \<in> set (closed_trades_table db'))))
         \<and> (it = None \<longrightarrow>
              (\<forall>tr db now rnd.
                 paper_positions tr = [pos] \<and> simulated_price (price pos) (rnd 0) = c \<longrightarrow>
                 close_positions_at_limit cfg tr db now rnd
                   = (Inr [], tr\<lparr> paper_positions := [pos'] \<rparr>,
                      if u then update_open_position db pos' else db)))"
proof -
  from assms obtain pos2 u2 u3 where
    i: "it = (case take_profit_check pos' c (stop_loss_check pos' c) of
                 (None, e) \<Rightarrow> None
               | (Some r, e) \<Rightarrow> Some \<lparr> ci_position = pos', ci_current_price = e,
                                    ci_reason = r, ci_pnl_pct = position_pnl_pct pos c \<rparr>)"
    by (rule check_position_unfold)
  note f = check_position_same_fields [OF assms]
  have a: "take_profit_price pos' \<le> c \<longrightarrow>
            it = Some \<lparr> ci_position = pos', ci_current_price = take_profit_price pos',
                        ci_reason = ''TAKE_PROFIT'', ci_pnl_pct = position_pnl_pct pos c \<rparr>"
    using i by (simp add: take_profit_check_def Let_def)
  have b: "c < take_profit_price pos' \<and> 0 < stop_loss_price pos' \<and> c \<le> stop_loss_price pos' \<longrightarrow>
              it = Some \<lparr> ci_position = pos', ci_current_price = stop_loss_price pos',
                          ci_reason = (if trailing_stop_active pos' then ''TRAILING_STOP''
                                       else if breakeven_triggered pos' then ''BREAKEVEN_STOP''
                                       else ''STOP_LOSS''),
                          ci_pnl_pct = position_pnl_pct pos c \<rparr>"
    using i by (simp add: take_profit_check_def stop_loss_check_cases Let_def)
  have c: "c < take_profit_price pos' \<and> \<not> (0 < stop_loss_price pos' \<and> c \<le> stop_loss_price pos') \<longrightarrow>
              it = None"
    using i by (simp add: take_profit_check_def stop_loss_check_cases Let_def)
  have d: "\<forall>item. it = Some item \<longrightarrow>
               (ci_reason item, ci_current_price item)
                 = (case take_profit_check pos' c (stop_loss_check pos' c) of (r, e) \<Rightarrow> (the r, e))
               \<and> ci_position item = pos'
               \<and> (ci_current_price item = stop_loss_price pos'
                   \<or> ci_current_price item = take_profit_price pos')"
    using check_position_item [of cfg pos c pos' u] assms by auto
  have e: "\<forall>item. it = Some item \<longrightarrow>
             (\<forall>tr db now. \<exists>res tr' db' ct.
                     close_items cfg tr db now [item] = ([res], tr', db')
                     \<and> cr_position res = pos' \<and> cr_exit_price res = ci_current_price item
                     \<and> cr_close_reason res = Some (ci_reason item)
                     \<and> cr_pnl res = (if upper (side pos) = ''BUY''
                                     then (ci_current_price item - price pos) * psize pos
                                     else (price pos - ci_current_price item) * psize pos)
                     \<and> closed_trades tr' = closed_trades tr @ [ct]
                     \<and> ct_id ct = ident pos \<and> ct_exit_price ct = ci_current_price item
                     \<and> ct_close_reason ct = ci_reason item \<and> ct_pnl ct = cr_pnl res
                     \<and> closed_trades_table db'
                         = filter (\<lambda>row. ct_id row \<noteq> ident pos) (closed_trades_table db)
                             @ [ct\<lparr> ct_prediction := None \<rparr>]
                     \<and> trader_daily_pnl tr' = trader_daily_pnl tr + cr_pnl res
                     \<and> trader_total_pnl tr' = trader_total_pnl tr + cr_pnl res
                     \<and> (paper_trading cfg \<longrightarrow>
                           paper_balance tr' = paper_balance tr + psize pos * ci_current_price item
                           \<and> paper_positions tr' = remove1 pos' (paper_positions tr)
                           \<and> open_positions_table db'
                               = filter (\<lambda>row. r_id row \<noteq> ident pos) (open_positions_table db)))"
  proof (intro allI impI)
    fix item and tr :: PolymarketTrader and db :: Database and now
    assume s: "it = Some item"
    with d have p: "ci_position item = pos'" by simp
    obtain res0 tr' db' where
      cl: "close_position cfg tr db now (ci_position item) (ci_current_price item)
             (ci_reason item) = (res0, tr', db')"
      by (cases "close_position cfg tr db now (ci_position item) (ci_current_price item)
                   (ci_reason item)")
    from close_position_effect [OF cl] obtain ct where
      ct: "cr_position res0 = ci_position item" "cr_exit_price res0 = ci_current_price item"
        "cr_pnl res0 = (if upper (side (ci_position item)) = ''BUY''
                        then (ci_current_price item - price (ci_position item))
                               * psize (ci_position item)
                        else (price (ci_position item) - ci_current_price item)
                               * psize (ci_position item))"
        "closed_trades tr' = closed_trades tr @ [ct]"
        "ct_id ct = ident (ci_position item)" "ct_exit_price ct = ci_current_price item"
        "ct_close_reason ct = ci_reason item" "ct_pnl ct = cr_pnl res0"
        "closed_trades_table db'
               = filter (\<lambda>row. ct_id row \<noteq> ident (ci_position item)) (closed_trades_table db)
                   @ [ct\<lparr> ct_prediction := None \<rparr>]"
        "trader_daily_pnl tr' = trader_daily_pnl tr + cr_pnl res0"
        "trader_total_pnl tr' = trader_total_pnl tr + cr_pnl res0"
        "paper_trading cfg \<longrightarrow>
                 paper_balance tr' = paper_balance tr
                                      + psize (ci_position item) * ci_current_price item
                 \<and> paper_positions tr' = remove1 (ci_position item) (paper_positions tr)
                 \<and> open_positions_table db'
                     = filter (\<lambda>row. r_id row \<noteq> ident (ci_position item))
                         (open_positions_table db)"
      by blast
    let ?res = "res0\<lparr> cr_close_reason := Some (ci_reason item) \<rparr>"
    have ci: "close_items cfg tr db now [item] = ([?res], tr', db')"
      using close_items_single [OF cl] .
    show "\<exists>res tr' db' ct.
                     close_items cfg tr db now [item] = ([res], tr', db')
                     \<and> cr_position res = pos' \<and> cr_exit_price res = ci_current_price item
                     \<and> cr_close_reason res = Some (ci_reason item)
                     \<and> cr_pnl res = (if upper (side pos) = ''BUY''
                                     then (ci_current_price item - price pos) * psize pos
                                     else (price pos - ci_current_price item) * psize pos)
                     \<and> closed_trades tr' = closed_trades tr @ [ct]
                     \<and> ct_id ct = ident pos \<and> ct_exit_price ct = ci_current_price item
                     \<and> ct_close_reason ct = ci_reason item \<and> ct_pnl ct = cr_pnl res
                     \<and> closed_trades_table db'
                         = filter (\<lambda>row. ct_id row \<noteq> ident pos) (closed_trades_table db)
                             @ [ct\<lparr> ct_prediction := None \<rparr>]
                     \<and> trader_daily_pnl tr' = trader_daily_pnl tr + cr_pnl res
                     \<and> trader_total_pnl tr' = trader_total_pnl tr + cr_pnl res
                     \<and> (paper_trading cfg \<longrightarrow>
                           paper_balance tr' = paper_balance tr + psize pos * ci_current_price item
                           \<and> paper_positions tr' = remove1 pos' (paper_positions tr)
                           \<and> open_positions_table db'
                               = filter (\<lambda>row. r_id row \<noteq> ident pos) (open_positions_table db))"
      apply (rule exI [of _ ?res])
      apply (rule exI [of _ tr'])
      apply (rule exI [of _ db'])
      apply (rule exI [of _ ct])
      using ci ct p f
      apply simp
      done
  qed
  have g: "\<forall>item. it = Some item \<longrightarrow>
             (\<forall>tr db now rnd.
                     paper_trading cfg \<and> paper_positions tr = [pos]
                     \<and> simulated_price (price pos) (rnd 0) = c \<longrightarrow>
                     (\<exists>res tr' db' ct.
                        close_positions_at_limit cfg tr db now rnd = (Inr [res], tr', db')
                        \<and> cr_position res = pos' \<and> cr_exit_price res = ci_current_price item
                        \<and> cr_close_reason res = Some (ci_reason item)
                        \<and> paper_positions tr' = []
                        \<and> closed_trades tr' = closed_trades tr @ [ct]
                        \<and> ct_id ct = ident pos \<and> ct_exit_price ct = ci_current_price item
                        \<and> ct_close_reason ct = ci_reason item
                        \<and> paper_balance tr' = paper_balance tr + psize pos * ci_current_price item
                        \<and> (\<forall>row \<in> set (open_positions_table db'). r_id row \<noteq> ident pos)
                        \<and> ct\<lparr> ct_prediction := None \<rparr> \<in> set (closed_trades_table db')))"
  proof (intro allI impI, elim conjE)
    fix item and tr :: PolymarketTrader and db :: Database and now and rnd :: "nat \<Rightarrow> real"
    assume s: "it = Some item" and pt: "paper_trading cfg" and ps: "paper_positions tr = [pos]"
      and sp: "simulated_price (price pos) (rnd 0) = c"
    let ?tr1 = "tr\<lparr> paper_positions := [pos'] \<rparr>"
    let ?db1 = "if u then update_open_position db pos' else db"
    have sw: "check_position_limits cfg tr db rnd = (Inr [item], ?tr1, ?db1)"
      using sweep_single [where rnd = rnd and db = db, OF assms ps sp] s by simp
    from e [rule_format, OF s, of ?tr1 ?db1 now] obtain res tr' db' ct where
      r: "close_items cfg ?tr1 ?db1 now [item] = ([res], tr', db')"
        "cr_position res = pos'" "cr_exit_price res = ci_current_price item"
        "cr_close_reason res = Some (ci_reason item)"
        "closed_trades tr' = closed_trades ?tr1 @ [ct]"
        "ct_id ct = ident pos" "ct_exit_price ct = ci_current_price item"
        "ct_close_reason ct = ci_reason item"
        "closed_trades_table db'
           = filter (\<lambda>row. ct_id row \<noteq> ident pos) (closed_trades_table ?db1)
               @ [ct\<lparr> ct_prediction := None \<rparr>]"
        "paper_trading cfg \<longrightarrow>
           paper_balance tr' = paper_balance ?tr1 + psize pos * ci_current_price item
           \<and> paper_positions tr' = remove1 pos' (paper_positions ?tr1)
           \<and> open_positions_table db'
               = filter (\<lambda>row. r_id row \<noteq> ident pos) (open_positions_table ?db1)"
      by blast
    have cl: "close_positions_at_limit cfg tr db now rnd = (Inr [res], tr', db')"
      by (simp only: close_positions_at_limit_def sw r(1) prod.case sum.case)
    from r(10) pt have q: "paper_balance tr' = paper_balance tr + psize pos * ci_current_price item"
      "paper_positions tr' = []"
      "\<forall>row \<in> set (open_positions_table db'). r_id row \<noteq> ident pos"
      by simp_all
    have m: "ct\<lparr> ct_prediction := None \<rparr> \<in> set (closed_trades_table db')"
      using r(9) by simp
    have k: "closed_trades tr' = closed_trades tr @ [ct]"
      using r(5) by simp
    show "\<exists>res tr' db' ct.
                        close_positions_at_limit cfg tr db now rnd = (Inr [res], tr', db')
                        \<and> cr_position res = pos' \<and> cr_exit_price res = ci_current_price item
                        \<and> cr_close_reason res = Some (ci_reason item)
                        \<and> paper_positions tr' = []
                        \<and> closed_trades tr' = closed_trades tr @ [ct]
                        \<and> ct_id ct = ident pos \<and> ct_exit_price ct = ci_current_price item
                        \<and> ct_close_reason ct = ci_reason item
                        \<and> paper_balance tr' = paper_balance tr + psize pos * ci_current_price item
                        \<and> (\<forall>row \<in> set (open_positions_table db'). r_id row \<noteq> ident pos)
                        \<and> ct\<lparr> ct_prediction := None \<rparr> \<in> set (closed_trades_table db')"
      using cl r(2,3,4,6,7,8) q m k by blast
  qed
  have h: "it = None \<longrightarrow>
              (\<forall>tr db now rnd.
                 paper_positions tr = [pos] \<and> simulated_price (price pos) (rnd 0) = c \<longrightarrow>
                 close_positions_at_limit cfg tr db now rnd
                   = (Inr [], tr\<lparr> paper_positions := [pos'] \<rparr>,
                      if u then update_open_position db pos' else db))"
  proof (intro allI impI, elim conjE)
    fix tr :: PolymarketTrader and db :: Database and now and rnd :: "nat \<Rightarrow> real"
    assume n: "it = None" and ps: "paper_positions tr = [pos]"
      and sp: "simulated_price (price pos) (rnd 0) = c"
    from sweep_single [where rnd = rnd and db = db, OF assms ps sp] n
    show "close_positions_at_limit cfg tr db now rnd
                   = (Inr [], tr\<lparr> paper_positions := [pos'] \<rparr>,
                      if u then update_open_position db pos' else db)"
      by (simp add: close_positions_at_limit_def)
  qed
  show ?thesis using a b c d e g h by blast
qed

theorem take_profit_after_stop_loss_witness:
  "(\<exists>pos' it. check_position default_config crossed_position 0.56 = Inr (pos', False, it)
       \<and> take_profit_price pos' \<le> 0.56 \<and> 0 < stop_loss_price pos'
       \<and> 0.56 \<le> stop_loss_price pos'
       \<and> it = Some \<lparr> ci_position = pos', ci_current_price = 0.55,
                      ci_reason = ''TAKE_PROFIT'',
                      ci_pnl_pct = position_pnl_pct crossed_position 0.56 \<rparr>)
   \<and> paper_trading default_config
   \<and> paper_positions crossed_trader = [crossed_position]
   \<and> - 0.05 \<le> crossed_draw 0 \<and> crossed_draw 0 \<le> 0.08
   \<and> simulated_price (price crossed_position) (crossed_draw 0) = 0.56
   \<and> paper_balance crossed_trader = 7000
   \<and> (\<exists>res tr' db' ct.
         close_positions_at_limit default_config crossed_trader crossed_db 0 crossed_draw
           = (Inr [res], tr', db')
         \<and> cr_exit_price res = 0.55 \<and> cr_close_reason res = Some ''TAKE_PROFIT''
         \<and> paper_positions tr' = [] \<and> closed_trades tr' = [ct]
         \<and> ct_exit_price ct = 0.55 \<and> ct_close_reason ct = ''TAKE_PROFIT''
         \<and> paper_balance tr' = 10300)
   \<and> (\<exists>pos' it. check_position default_config scenario_trailing 0.5 = Inr (pos', False, it)
         \<and> 0.5 < take_profit_price pos' \<and> 0 < stop_loss_price pos'
         \<and> 0.5 \<le> stop_loss_price pos'
         \<and> it = Some \<lparr> ci_position = pos', ci_current_price = 0.54,
                        ci_reason = ''TRAILING_STOP'',
                        ci_pnl_pct = position_pnl_pct scenario_trailing 0.5 \<rparr>)
   \<and> (\<exists>pos' it. check_position default_config scenario_position 0.5 = Inr (pos', False, it)
         \<and> 0.5 < take_profit_price pos' \<and> \<not> 0.5 \<le> stop_loss_price pos' \<and> it = None)
   \<and> close_positions_at_limit default_config scenario_trader_open scenario_db_open 0 (\<lambda>i. 0)
        = (Inr [], scenario_trader_open, scenario_db_open)"
proof -
  let ?p = "crossed_position\<lparr> highest_price := 14 / 25 \<rparr>"
  let ?item = "\<lparr> ci_position = ?p, ci_current_price = 11 / 20, ci_reason = ''TAKE_PROFIT'',
                  ci_pnl_pct = 3 / 25 \<rparr>"
  have e1: "check_position default_config crossed_position 0.56 = Inr (?p, False, Some ?item)"
    using crossed_tick by simp
  have f1: "take_profit_price ?p = 0.55" "stop_loss_price ?p = 0.6"
    by (simp_all add: crossed_position_def scenario_position_def)
  note t1 = take_profit_after_stop_loss [OF e1]
  have 1: "\<exists>pos' it. check_position default_config crossed_position 0.56 = Inr (pos', False, it)
       \<and> take_profit_price pos' \<le> 0.56 \<and> 0 < stop_loss_price pos'
       \<and> 0.56 \<le> stop_loss_price pos'
       \<and> it = Some \<lparr> ci_position = pos', ci_current_price = 0.55,
                      ci_reason = ''TAKE_PROFIT'',
                      ci_pnl_pct = position_pnl_pct crossed_position 0.56 \<rparr>"
    using t1 [THEN conjunct1] e1 f1 by simp
  have pt: "paper_trading default_config" by (simp add: default_config_def)
  have ps: "paper_positions crossed_trader = [crossed_position]"
    by (simp add: crossed_trader_def)
  have sp: "simulated_price (price crossed_position) (crossed_draw 0) = 0.56"
    by (simp add: simulated_price_def crossed_draw_def crossed_position_def
          scenario_position_def)
  have dr: "- 0.05 \<le> crossed_draw 0" "crossed_draw 0 \<le> 0.08"
    by (simp_all add: crossed_draw_def)
  have bal: "paper_balance crossed_trader = 7000" "closed_trades crossed_trader = []"
    "psize crossed_position = 6000"
    by (simp_all add: crossed_trader_def scenario_trader_open_def scenario_trader_def
          crossed_position_def scenario_position_def)
  note swp = t1 [THEN conjunct2, THEN conjunct2, THEN conjunct2, THEN conjunct1,
                 rule_format, OF refl, THEN conjunct2, THEN conjunct2, THEN conjunct2,
                 THEN conjunct2, rule_format]
  have prem: "paper_trading default_config \<and> paper_positions crossed_trader = [crossed_position]
              \<and> simulated_price (price crossed_position) (crossed_draw 0) = 0.56"
    using pt ps sp by simp
  from swp [where tr = crossed_trader and rnd = crossed_draw and db = crossed_db and now = 0,
            OF prem]
  obtain res tr' db' ct where
    r: "close_positions_at_limit default_config crossed_trader crossed_db 0 crossed_draw
          = (Inr [res], tr', db')"
      "cr_exit_price res = ci_current_price ?item"
      "cr_close_reason res = Some (ci_reason ?item)"
      "paper_positions tr' = []"
      "closed_trades tr' = closed_trades crossed_trader @ [ct]"
      "ct_exit_price ct = ci_current_price ?item"
      "ct_close_reason ct = ci_reason ?item"
      "paper_balance tr' = paper_balance crossed_trader
                            + psize crossed_position * ci_current_price ?item"
    by blast
  have 2: "\<exists>res tr' db' ct.
         close_positions_at_limit default_config crossed_trader crossed_db 0 crossed_draw
           = (Inr [res], tr', db')
         \<and> cr_exit_price res = 0.55 \<and> cr_close_reason res = Some ''TAKE_PROFIT''
         \<and> paper_positions tr' = [] \<and> closed_trades tr' = [ct]
         \<and> ct_exit_price ct = 0.55 \<and> ct_close_reason ct = ''TAKE_PROFIT''
         \<and> paper_balance tr' = 10300"
  proof -
    have "cr_exit_price res = 0.55" "cr_close_reason res = Some ''TAKE_PROFIT''"
      "closed_trades tr' = [ct]" "ct_exit_price ct = 0.55"
      "ct_close_reason ct = ''TAKE_PROFIT''" "paper_balance tr' = 10300"
      using r(2,3,5,6,7,8) bal by simp_all
    with r(1,4) show ?thesis by blast
  qed
  have e2: "check_position default_config scenario_trailing 0.5
     = Inr (scenario_trailing, False,
            Some \<lparr> ci_position = scenario_trailing, ci_current_price = 27 / 50,
                   ci_reason = ''TRAILING_STOP'', ci_pnl_pct = 0 \<rparr>)"
    using default_ticks(4) by simp
  have f2: "take_profit_price scenario_trailing = 0.65" "stop_loss_price scenario_trailing = 0.54"
    "trailing_stop_active scenario_trailing"
    by (simp_all add: scenario_trailing_def scenario_position_def)
  have 3: "\<exists>pos' it. check_position default_config scenario_trailing 0.5 = Inr (pos', False, it)
         \<and> 0.5 < take_profit_price pos' \<and> 0 < stop_loss_price pos'
         \<and> 0.5 \<le> stop_loss_price pos'
         \<and> it = Some \<lparr> ci_position = pos', ci_current_price = 0.54,
                        ci_reason = ''TRAILING_STOP'',
                        ci_pnl_pct = position_pnl_pct scenario_trailing 0.5 \<rparr>"
    using take_profit_after_stop_loss [OF e2, THEN conjunct2, THEN conjunct1] e2 f2 by simp
  have e3: "check_position default_config scenario_position 0.5
              = Inr (scenario_position, False, None)"
    using default_ticks(1) by simp
  have f3: "take_profit_price scenario_position = 0.65" "stop_loss_price scenario_position = 0.425"
    by (simp_all add: scenario_position_def)
  have 4: "\<exists>pos' it. check_position default_config scenario_position 0.5 = Inr (pos', False, it)
         \<and> 0.5 < take_profit_price pos' \<and> \<not> 0.5 \<le> stop_loss_price pos' \<and> it = None"
    using e3 f3 by simp
  have ps3: "paper_positions scenario_trader_open = [scenario_position]
             \<and> simulated_price (price scenario_position) ((\<lambda>i. 0) (0::nat)) = 0.5"
    by (simp add: scenario_trader_open_def simulated_price_def scenario_position_def)
  note none = take_profit_after_stop_loss [OF e3, THEN conjunct2, THEN conjunct2,
                THEN conjunct2, THEN conjunct2, rule_format, OF refl]
  have 5: "close_positions_at_limit default_config scenario_trader_open scenario_db_open 0 (\<lambda>i. 0)
        = (Inr [], scenario_trader_open, scenario_db_open)"
    using none [where rnd = "\<lambda>i. 0" and tr = scenario_trader_open and db = scenario_db_open
                  and now = 0, OF ps3]
    by (simp add: scenario_trader_open_def)
  show ?thesis
    by (intro conjI) (rule 1 pt ps dr sp bal(1) 2 3 4 5)+
qed

section \<open>Saving and reloading an open position\<close>

text \<open>
  C7, as stated: the position read back is identical in all fields to the one in memory,
  with any other field the order carried. \<open>_paper_order\<close> writes the key \<open>prediction\<close>, the
  table \<open>open_positions\<close> has no column for it, and \<open>get_open_positions\<close> builds a dict
  without it.
\<close>

theorem reload_drops_prediction:
  "get_open_positions (save_open_position scenario_db scenario_position)
     = [scenario_position\<lparr> prediction := None \<rparr>]
   \<and> prediction scenario_position = Some ''YES''
   \<and> scenario_position\<lparr> prediction := None \<rparr> \<noteq> scenario_position"
  by (simp add: get_open_positions_def save_open_position_def scenario_db_def
       position_of_row_of_position) (simp add: scenario_position_def)

text \<open>
  C7, amended. A BUY paper order is appended to the open positions and saved; the database
  then holds exactly one position with its id, the last one, and that position agrees with
  the one in memory in every field but \<open>prediction\<close>, which it does not have.
\<close>

theorem save_reload_roundtrip:
  assumes "paper_order cfg tr db now tok sd sz pr q risk pred = (Some p, tr', db')"
    and "upper sd = ''BUY''"
  shows "get_open_positions db'
           = get_open_positions (delete_open_position db (ident p)) @ [p\<lparr> prediction := None \<rparr>]
         \<and> last (paper_positions tr') = p
         \<and> [p' \<leftarrow> get_open_positions db'. ident p' = ident p] = [p\<lparr> prediction := None \<rparr>]"
proof -
  have st: "p\<lparr> prediction := None, status := ''FILLED'' \<rparr> = p\<lparr> prediction := None \<rparr>"
    using paper_order_fields(1) [OF assms(1)] by simp
  have id: "\<And>r. ident (position_of_row r) = r_id r"
    by (simp add: position_of_row_def)
  have 1: "get_open_positions db'
           = get_open_positions (delete_open_position db (ident p)) @ [p\<lparr> prediction := None \<rparr>]"
    by (simp add: paper_order_buy_db(1) [OF assms] get_open_positions_def save_open_position_def
         delete_open_position_def position_of_row_of_position st)
  have 2: "[p' \<leftarrow> get_open_positions (delete_open_position db (ident p)). ident p' = ident p] = []"
    by (simp add: get_open_positions_def delete_open_position_def filter_map o_def id)
  show ?thesis
    using 1 2 paper_order_buy_db(2) [OF assms] by simp
qed

theorem save_reload_roundtrip_witness:
  "paper_order default_config scenario_trader scenario_db 0 ''T'' ''BUY'' 6000 (1 / 2) ''Q'' 500 []
     = (Some scenario_position, scenario_trader_open, scenario_db_open)
   \<and> upper ''BUY'' = ''BUY''
   \<and> get_open_positions scenario_db_open = [scenario_position\<lparr> prediction := None \<rparr>]
   \<and> last (paper_positions scenario_trader_open) = scenario_position"
proof -
  have d: "get_open_positions (delete_open_position scenario_db (ident scenario_position)) = []"
    by (simp add: get_open_positions_def delete_open_position_def scenario_db_def)
  from save_reload_roundtrip [OF scenario_paper_order upper_BUY] d
  have "get_open_positions scenario_db_open = [scenario_position\<lparr> prediction := None \<rparr>]"
    "last (paper_positions scenario_trader_open) = scenario_position"
    by simp_all
  then show ?thesis using scenario_paper_order upper_BUY by simp
qed

section \<open>The breakeven scenario\<close>

text \<open>
  C9, as stated: under the default configuration the path 0.50, 0.60, 0.55, 0.50 ends in a
  close with reason \<open>BREAKEVEN_STOP\<close> and no profit or loss. The default configuration has
  \<open>use_trailing_stop\<close> set, so the sweep at 0.60 that fires the breakeven block also raises
  the stop to \<open>0.60 * 0.9 = 0.54\<close>; the sweep at 0.50 closes at 0.54 with reason
  \<open>TRAILING_STOP\<close> and a profit.
\<close>

theorem breakeven_scenario_counterexample:
  "monitor_path default_config scenario_position [0.5, 0.6, 0.55, 0.5]
     = Inr (scenario_trailing,
            Some \<lparr> ci_position = scenario_trailing, ci_current_price = 0.54,
                   ci_reason = ''TRAILING_STOP'', ci_pnl_pct = 0 \<rparr>)
   \<and> ''TRAILING_STOP'' \<noteq> ''BREAKEVEN_STOP''
   \<and> stop_loss_price scenario_trailing \<noteq> price scenario_position
   \<and> cr_pnl (fst (close_position default_config scenario_trader_open scenario_db_open 0
                     scenario_trailing 0.54 ''TRAILING_STOP'')) \<noteq> 0"
proof (intro conjI)
  show "monitor_path default_config scenario_position [0.5, 0.6, 0.55, 0.5]
     = Inr (scenario_trailing,
            Some \<lparr> ci_position = scenario_trailing, ci_current_price = 0.54,
                   ci_reason = ''TRAILING_STOP'', ci_pnl_pct = 0 \<rparr>)"
    by (rule default_path)
  show "''TRAILING_STOP'' \<noteq> ''BREAKEVEN_STOP''" by simp
  show "stop_loss_price scenario_trailing \<noteq> price scenario_position"
    by (simp add: scenario_trailing_def scenario_position_def)
  show "cr_pnl (fst (close_position default_config scenario_trader_open scenario_db_open 0
                     scenario_trailing 0.54 ''TRAILING_STOP'')) \<noteq> 0"
    by (simp add: close_position_pnl scenario_trailing_def scenario_position_def)
qed

text \<open>
  C9, amended. A BUY paper order at 0.50 under the default percentages has its take-profit
  level at 0.65 and its stop at 0.425. With \<open>use_trailing_stop\<close> off and the other defaults,
  on the path 0.50, 0.60, 0.55, 0.50 the breakeven block fires at 0.60 and moves the stop
  to the entry price 0.50, and the sweep at 0.50 closes at 0.50 with reason
  \<open>BREAKEVEN_STOP\<close> and a P&L of zero. With the default \<open>use_trailing_stop\<close> the sweep at 0.60
  moves the stop to 0.54, and the sweep at 0.50 closes at 0.54 with reason \<open>TRAILING_STOP\<close>;
  for the 6000 shares of the scenario the P&L is 240.
\<close>

theorem breakeven_scenario:
  "paper_order default_config scenario_trader scenario_db 0 ''T'' ''BUY'' 6000 0.5 ''Q'' 500 []
     = (Some scenario_position, scenario_trader_open, scenario_db_open)
   \<and> price scenario_position = 0.5
   \<and> take_profit_price scenario_position = 0.65
   \<and> stop_loss_price scenario_position = 0.425
   \<and> check_position no_trailing_config scenario_position 0.5 = Inr (scenario_position, False, None)
   \<and> check_position no_trailing_config scenario_position 0.6 = Inr (scenario_breakeven, True, None)
   \<and> stop_loss_price scenario_breakeven = 0.5
   \<and> check_position no_trailing_config scenario_breakeven 0.55
        = Inr (scenario_breakeven, False, None)
   \<and> monitor_path no_trailing_config scenario_position [0.5, 0.6, 0.55, 0.5]
       = Inr (scenario_breakeven,
              Some \<lparr> ci_position = scenario_breakeven, ci_current_price = 0.5,
                     ci_reason = ''BREAKEVEN_STOP'', ci_pnl_pct = 0 \<rparr>)
   \<and> cr_pnl (fst (close_position no_trailing_config scenario_trader_open scenario_db_open now
                     scenario_breakeven 0.5 ''BREAKEVEN_STOP'')) = 0
   \<and> check_position default_config scenario_position 0.6 = Inr (scenario_trailing, True, None)
   \<and> stop_loss_price scenario_trailing = 0.54
   \<and> monitor_path default_config scenario_position [0.5, 0.6, 0.55, 0.5]
       = Inr (scenario_trailing,
              Some \<lparr> ci_position = scenario_trailing, ci_current_price = 0.54,
                     ci_reason = ''TRAILING_STOP'', ci_pnl_pct = 0 \<rparr>)
   \<and> cr_pnl (fst (close_position default_config scenario_trader_open scenario_db_open now
                     scenario_trailing 0.54 ''TRAILING_STOP'')) = 240"
proof -
  have po: "paper_order default_config scenario_trader scenario_db 0 ''T'' ''BUY'' 6000 0.5 ''Q'' 500 []
     = (Some scenario_position, scenario_trader_open, scenario_db_open)"
    using scenario_paper_order by simp
  have f: "price scenario_position = 0.5" "take_profit_price scenario_position = 0.65"
    "stop_loss_price scenario_position = 0.425" "stop_loss_price scenario_breakeven = 0.5"
    "stop_loss_price scenario_trailing = 0.54"
    by (simp_all add: scenario_position_def scenario_breakeven_def scenario_trailing_def)
  have c1: "check_position no_trailing_config scenario_position 0.5 = Inr (scenario_position, False, None)"
    using no_trailing_ticks(1) by simp
  have c2: "check_position no_trailing_config scenario_position 0.6 = Inr (scenario_breakeven, True, None)"
    using no_trailing_ticks(2) by simp
  have c3: "check_position no_trailing_config scenario_breakeven 0.55
        = Inr (scenario_breakeven, False, None)"
    using no_trailing_ticks(3) by simp
  have c4: "check_position default_config scenario_position 0.6 = Inr (scenario_trailing, True, None)"
    using default_ticks(2) by simp
  have p1: "cr_pnl (fst (close_position no_trailing_config scenario_trader_open scenario_db_open now
                     scenario_breakeven 0.5 ''BREAKEVEN_STOP'')) = 0"
    by (simp add: close_position_pnl scenario_breakeven_def scenario_position_def)
  have p2: "cr_pnl (fst (close_position default_config scenario_trader_open scenario_db_open now
                     scenario_trailing 0.54 ''TRAILING_STOP'')) = 240"
    by (simp add: close_position_pnl scenario_trailing_def scenario_position_def)
  show ?thesis
    by (intro conjI) (rule po f c1 c2 c3 c4 p1 p2 default_path no_trailing_path)+
qed

section \<open>Closing a position that is not open\<close>

text \<open>
  C10. In paper mode \<open>close_position\<close> does the same to the P&L, the balance, the closed
  trades and the database whether or not the position is among the open ones: the daily
  and total P&L grow by the computed P&L, the balance by \<open>size * exit_price\<close>, a closed
  trade is appended and saved, the state row is rewritten. Membership decides only the
  removal from the open list, which is left as it is for a position that is not in it.
  A second close of the same position adds the same amounts once more.
\<close>

theorem close_position_not_guarded:
  assumes "paper_trading cfg"
  shows "\<exists>res tr' db' ct pnl.
           close_position cfg tr db now position exit_price r = (res, tr', db')
           \<and> pnl = (if upper (side position) = ''BUY''
                    then (exit_price - price position) * psize position
                    else (price position - exit_price) * psize position)
           \<and> cr_pnl res = pnl
           \<and> trader_daily_pnl tr' = trader_daily_pnl tr + pnl
           \<and> trader_total_pnl tr' = trader_total_pnl tr + pnl
           \<and> paper_balance tr' = paper_balance tr + psize position * exit_price
           \<and> (position \<notin> set (paper_positions tr) \<longrightarrow> paper_positions tr' = paper_positions tr)
           \<and> (position \<in> set (paper_positions tr) \<longrightarrow>
                 paper_positions tr' = remove1 position (paper_positions tr))
           \<and> closed_trades tr' = closed_trades tr @ [ct]
           \<and> ct_id ct = ident position \<and> ct_pnl ct = pnl \<and> ct_exit_price ct = exit_price
           \<and> ct_close_reason ct = r
           \<and> ct\<lparr> ct_prediction := None \<rparr> \<in> set (closed_trades_table db')
           \<and> bot_state db' = \<lparr> bs_paper_balance = paper_balance tr',
                                 bs_daily_pnl = trader_daily_pnl tr',
                                 bs_total_pnl = trader_total_pnl tr' \<rparr>
           \<and> (\<exists>res2 tr2 db2.
                 close_position cfg tr' db' now2 position exit_price r = (res2, tr2, db2)
                 \<and> cr_pnl res2 = pnl
                 \<and> trader_daily_pnl tr2 = trader_daily_pnl tr + 2 * pnl
                 \<and> trader_total_pnl tr2 = trader_total_pnl tr + 2 * pnl
                 \<and> paper_balance tr2 = paper_balance tr + 2 * (psize position * exit_price)
                 \<and> length (closed_trades tr2) = length (closed_trades tr) + 2)"
  using assms
  by (simp add: close_position_def Let_def save_closed_trade_def save_bot_state_def
       delete_open_position_def)

theorem close_position_not_guarded_witness:
  "paper_trading default_config
   \<and> scenario_position \<notin> set (paper_positions scenario_trader)
   \<and> (\<exists>res tr' db'.
         close_position default_config scenario_trader scenario_db 0 scenario_position 0.6
           ''MANUAL'' = (res, tr', db')
         \<and> cr_pnl res = 600 \<and> trader_daily_pnl tr' = 600 \<and> trader_total_pnl tr' = 600
         \<and> paper_balance tr' = 13600 \<and> paper_positions tr' = []
         \<and> length (closed_trades tr') = 1
         \<and> (\<exists>res2 tr2 db2.
               close_position default_config tr' db' 1 scenario_position 0.6 ''MANUAL''
                 = (res2, tr2, db2)
               \<and> trader_daily_pnl tr2 = 1200 \<and> paper_balance tr2 = 17200
               \<and> length (closed_trades tr2) = 2))"
proof -
  have h: "paper_trading default_config" by (simp add: default_config_def)
  have n: "scenario_position \<notin> set (paper_positions scenario_trader)"
    by (simp add: scenario_trader_def)
  have v: "(if upper (side scenario_position) = ''BUY''
            then (0.6 - price scenario_position) * psize scenario_position
            else (price scenario_position - 0.6) * psize scenario_position) = 600"
    "psize scenario_position * 0.6 = 3600"
    by (simp_all add: scenario_position_def)
  have t: "trader_daily_pnl scenario_trader = 0" "trader_total_pnl scenario_trader = 0"
    "paper_balance scenario_trader = 10000" "paper_positions scenario_trader = []"
    "closed_trades scenario_trader = []"
    by (simp_all add: scenario_trader_def)
  from close_position_not_guarded [OF h, where tr = scenario_trader and db = scenario_db
         and now = 0 and position = scenario_position and exit_price = "0.6"
         and r = "''MANUAL''" and ?now2.0 = 1]
  obtain res tr' db' ct pnl res2 tr2 db2 where
    c1: "close_position default_config scenario_trader scenario_db 0 scenario_position 0.6
           ''MANUAL'' = (res, tr', db')"
    and p: "pnl = (if upper (side scenario_position) = ''BUY''
            then (0.6 - price scenario_position) * psize scenario_position
            else (price scenario_position - 0.6) * psize scenario_position)"
    and r1: "cr_pnl res = pnl" "trader_daily_pnl tr' = trader_daily_pnl scenario_trader + pnl"
      "trader_total_pnl tr' = trader_total_pnl scenario_trader + pnl"
      "paper_balance tr' = paper_balance scenario_trader + psize scenario_position * 0.6"
      "scenario_position \<notin> set (paper_positions scenario_trader) \<longrightarrow>
         paper_positions tr' = paper_positions scenario_trader"
      "closed_trades tr' = closed_trades scenario_trader @ [ct]"
    and c2: "close_position default_config tr' db' 1 scenario_position 0.6 ''MANUAL''
                 = (res2, tr2, db2)"
    and r2: "trader_daily_pnl tr2 = trader_daily_pnl scenario_trader + 2 * pnl"
      "paper_balance tr2 = paper_balance scenario_trader + 2 * (psize scenario_position * 0.6)"
      "length (closed_trades tr2) = length (closed_trades scenario_trader) + 2"
    by blast
  have pv: "pnl = 600" using p v(1) by simp
  have a: "cr_pnl res = 600" "trader_daily_pnl tr' = 600" "trader_total_pnl tr' = 600"
    "paper_balance tr' = 13600" "paper_positions tr' = []" "length (closed_trades tr') = 1"
    using r1 n pv v(2) t by simp_all
  have b: "trader_daily_pnl tr2 = 1200" "paper_balance tr2 = 17200"
    "length (closed_trades tr2) = 2"
    using r2 pv v(2) t by simp_all
  show ?thesis using h n c1 c2 a b by blast
qed

end
